theory Spec2Isabelle
  imports Complex_Main
begin

section \<open>Data model of \<open>files/models.py\<close>\<close>

text \<open>
  The rows of the tables the encoding pipeline works on. Only the columns that the
  modelled methods read or write are kept. A file column holds the stored name of the
  file, the empty string standing for "no file" (Django's falsy \<open>FieldFile\<close>).
  Timestamps are microseconds since the epoch. A row that was never saved has id 0.
\<close>

datatype py_error = TypeError | ValueError | OverflowError | DatabaseError | DoesNotExist

record encode_profile =
  profile_id :: nat
  extension :: string
  resolution :: "int option"
  codec :: "string option"
  active :: bool

record encoding =
  encoding_id :: nat
  logs :: string
  media :: nat
  profile :: encode_profile
  status :: string
  media_file :: string
  progress :: int
  add_date :: int
  update_date :: int
  total_run_time :: int
  worker :: string
  chunk :: bool
  chunk_file_path :: string
  chunks_info :: string

text \<open>\<open>source_file\<close> is the column \<open>Media.media_file\<close> (the uploaded file).\<close>

record media_row =
  media_id :: nat
  friendly_token :: string
  source_file :: string
  duration :: int
  encoding_status :: string
  media_type :: string
  media_info :: string
  video_height :: int
  md5sum :: "string option"
  file_size :: "string option"
  preview_file_path :: string

text \<open>
  \<open>django.conf.settings\<close>, as far as the pipeline reads it. \<open>api_get_encoding\<close> is
  \<open>reverse("api_get_encoding", kwargs={"encoding_id": id})\<close>.
\<close>

record settings =
  CHUNKIZE_VIDEO_DURATION :: int
  MINIMUM_RESOLUTIONS_TO_ENCODE :: "int list"
  SSL_FRONTEND_HOST :: string
  MEDIA_ROOT :: string
  api_get_encoding :: "nat \<Rightarrow> string"

text \<open>
  What the handlers get from outside the repository: the keys of the JSON object in
  \<open>chunks_info\<close> (\<open>json.loads(s).keys()\<close>, \<open>None\<close> when either call raises), the printed
  result of the ffmpeg concat command on a list of inputs, Python's \<open>repr\<close> of a list of
  paths, \<open>json.dumps({"workers": list(ws)})\<close> for a set of worker names (the order of a
  Python set is not fixed, so it is a function of the set), and the name under which the
  storage keeps the assembled file of a job.
\<close>

record env =
  json_keys :: "string \<Rightarrow> string list option"
  run_concat :: "string list \<Rightarrow> string"
  repr_list :: "string list \<Rightarrow> string"
  dumps_workers :: "string set \<Rightarrow> string"
  upload_name :: "encoding \<Rightarrow> string"

text \<open>Units of asynchronous work handed to the worker pool, and effects outside the tables.\<close>

datatype task =
    Encode_media string nat nat string bool int
  | Chunkize_media string "nat list" bool
  | Produce_sprite_from_video string

datatype event =
    Run_concat "string list"
  | Rm_file string
  | Create_hls string

text \<open>
  The state the handlers run on: the \<open>Encoding\<close> table in insertion order, the \<open>Media\<close>
  table, the next free primary key of \<open>Encoding\<close>, the clock read by \<open>auto_now\<close> and
  \<open>auto_now_add\<close> (one instant for the whole handler), the effects so far and the task
  queue, oldest first.
\<close>

record world =
  encodings :: "encoding list"
  medias :: "media_row list"
  next_id :: nat
  now :: int
  events :: "event list"
  queue :: "task list"

definition log_event :: "event \<Rightarrow> world \<Rightarrow> world" where
  "log_event ev w = w\<lparr>events := events w @ [ev]\<rparr>"

definition apply_async :: "task \<Rightarrow> world \<Rightarrow> world" where
  "apply_async t w = w\<lparr>queue := queue w @ [t]\<rparr>"

text \<open>\<open>Encoding(media=m, profile=p)\<close> with the defaults of the columns.\<close>

definition new_encoding :: "nat \<Rightarrow> encode_profile \<Rightarrow> encoding" where
  "new_encoding m p =
     \<lparr>encoding_id = 0, logs = '''', media = m, profile = p, status = ''pending'',
      media_file = '''', progress = 0, add_date = 0, update_date = 0, total_run_time = 0,
      worker = '''', chunk = False, chunk_file_path = '''', chunks_info = ''''\<rparr>"

text \<open>
  \<open>FileSystemStorage.path\<close>: the name is joined by one slash to the location of the
  storage, the absolute form of \<open>MEDIA_ROOT\<close>, which ends in no slash. \<open>MEDIA_ROOT\<close> is
  taken to be an absolute, normalised path, with or without slashes at its end, and names
  to be relative, normalised paths, as the upload functions of this file build them.
\<close>

definition storage_path :: "settings \<Rightarrow> string \<Rightarrow> string" where
  "storage_path st name =
     rev (dropWhile (\<lambda>c. c = CHR ''/'') (rev (MEDIA_ROOT st))) @ ''/'' @ name"

text \<open>
  \<open>FieldFile.path\<close>: Django raises \<open>ValueError\<close> when the field has no file, and asks the
  storage for the path of the name otherwise.
\<close>

definition file_path :: "settings \<Rightarrow> string \<Rightarrow> py_error + string" where
  "file_path st name = (if name = '''' then Inl ValueError else Inr (storage_path st name))"

text \<open>\<open>[f.media_file.path for f in chunks]\<close>: the first missing file raises.\<close>

fun chunks_paths_of :: "settings \<Rightarrow> encoding list \<Rightarrow> py_error + string list" where
  "chunks_paths_of st [] = Inr []"
| "chunks_paths_of st (f # fs) =
     (case file_path st (media_file f) of
        Inl e \<Rightarrow> Inl e
      | Inr p \<Rightarrow> (case chunks_paths_of st fs of Inl e \<Rightarrow> Inl e | Inr ps \<Rightarrow> Inr (p # ps)))"

text \<open>\<open>sep.join(xs)\<close> and the line feed.\<close>

fun join :: "string \<Rightarrow> string list \<Rightarrow> string" where
  "join sep [] = []"
| "join sep [x] = x"
| "join sep (x # y # ys) = x @ sep @ join sep (y # ys)"

definition nl :: string where
  "nl = [CHR 0x0A]"

text \<open>
  \<open>timedelta.seconds\<close> of a difference of timestamps: the seconds field of the normalised
  (days, seconds, microseconds), not the total number of seconds.
\<close>

definition timedelta_seconds :: "int \<Rightarrow> int" where
  "timedelta_seconds d = (d div 1000000) mod 86400"

section \<open>Aggregate status: \<open>Media.set_encoding_status\<close>\<close>

text \<open>
  \<open>self.encodings.select_related("profile").filter(profile__extension="mp4", chunk=False)\<close>:
  the rows of the encoding table that belong to this media, joined with their profile.
\<close>

definition mp4_non_chunk :: "encoding list \<Rightarrow> media_row \<Rightarrow> encoding list" where
  "mp4_non_chunk encs self =
     filter (\<lambda>enc. media enc = media_id self \<and> extension (profile enc) = ''mp4'' \<and> \<not> chunk enc) encs"

definition mp4_statuses :: "encoding list \<Rightarrow> media_row \<Rightarrow> string set" where
  "mp4_statuses encs self = set (map status (mp4_non_chunk encs self))"

definition set_encoding_status :: "encoding list \<Rightarrow> media_row \<Rightarrow> media_row" where
  "set_encoding_status encs self =
     (let sts = mp4_statuses encs self in
      self\<lparr>encoding_status :=
        (if sts = {} then ''pending''
         else if ''success'' \<in> sts then ''success''
         else if ''running'' \<in> sts then ''running''
         else ''fail'')\<rparr>)"

section \<open>After an encode: \<open>Media.post_encode_actions\<close>\<close>

text \<open>
  \<open>instance.media\<close>: the row of the media table with this key. The foreign key of a job
  cascades, so the media of a job is in the table as long as the job is; where the row is
  needed and there is none, \<open>DoesNotExist\<close> is raised. Queries that only filter on
  \<open>media=instance.media\<close> compare the key.
\<close>

definition get_media :: "world \<Rightarrow> nat \<Rightarrow> media_row option" where
  "get_media w m = find (\<lambda>r. media_id r = m) (medias w)"

text \<open>
  \<open>self.save(update_fields=[...])\<close> of a media read from the table: the two columns that
  \<open>post_encode_actions\<close> sets are written to the row. For a row that has been saved before
  (it has a title and a token, and its file and thumbnail time are as loaded) the other
  steps of \<open>Media.save\<close> and of its \<open>post_save\<close> handler touch no column kept here.
\<close>

definition save_media :: "media_row \<Rightarrow> world \<Rightarrow> world" where
  "save_media self w =
     w\<lparr>medias :=
         map (\<lambda>r. if media_id r = media_id self
                   then r\<lparr>encoding_status := encoding_status self,
                          preview_file_path := preview_file_path self\<rparr>
                   else r) (medias w)\<rparr>"

text \<open>
  \<open>post_encode_actions(encoding, action)\<close> on the media of the job: the status is
  recomputed from the table; for a gif job of a video the preview path is cleared on
  delete and otherwise read from \<open>encoding.media_file.path\<close>, which raises for a job
  without a file; the row is saved; and a finished h264 job that was added starts the
  packaging, a call recorded as an effect.
\<close>

definition post_encode_actions ::
    "settings \<Rightarrow> encoding \<Rightarrow> string \<Rightarrow> world \<Rightarrow> (py_error \<times> world) + world" where
  "post_encode_actions st encoding action w =
     (case get_media w (media encoding) of
        None \<Rightarrow> Inl (DoesNotExist, w)
      | Some row \<Rightarrow>
          (let self = set_encoding_status (encodings w) row
           in case (if media_type self = ''video'' \<and> extension (profile encoding) = ''gif'' then
                      (if action = ''delete'' then Inr (self\<lparr>preview_file_path := ''''\<rparr>)
                       else (case file_path st (media_file encoding) of
                               Inl e \<Rightarrow> Inl e
                             | Inr p \<Rightarrow> Inr (self\<lparr>preview_file_path := p\<rparr>)))
                    else Inr self) of
                Inl e \<Rightarrow> Inl (e, w)
              | Inr self' \<Rightarrow>
                  (let w1 = save_media self' w
                   in Inr (if status encoding = ''success''
                              \<and> codec (profile encoding) = Some ''h264'' \<and> action = ''add''
                           then log_event (Create_hls (friendly_token self')) w1
                           else w1))))"

section \<open>Signal handlers of \<open>Encoding\<close>\<close>

text \<open>
  The last branch of \<open>encoding_file_save\<close>, taken for every row that is not a finished
  chunk. The set of statuses computed after \<open>post_encode_actions\<close> is not used.
\<close>

definition post_save_other :: "settings \<Rightarrow> encoding \<Rightarrow> world \<Rightarrow> (py_error \<times> world) + world" where
  "post_save_other st instance w =
     (if status instance \<in> {''fail'', ''success''}
      then post_encode_actions st instance ''add'' w
      else Inr w)"

text \<open>
  \<open>encoding.save()\<close> of a new job that is not a chunk: the row is inserted with a fresh key
  and both timestamps, then \<open>post_save\<close> runs, which for such a row is \<open>post_save_other\<close>.
\<close>

definition save_new ::
    "settings \<Rightarrow> encoding \<Rightarrow> world \<Rightarrow> (py_error \<times> world) + (encoding \<times> world)" where
  "save_new st e w =
     (let e' = e\<lparr>encoding_id := next_id w, add_date := now w, update_date := now w\<rparr>
      in case post_save_other st e'
                (w\<lparr>encodings := encodings w @ [e'], next_id := Suc (next_id w)\<rparr>) of
           Inl x \<Rightarrow> Inl x
         | Inr w' \<Rightarrow> Inr (e', w'))"

text \<open>
  \<open>encoding.media_file.save(content, name)\<close> of a job that is not a chunk: the file is
  stored, the column set, and the row saved again with every column and a new
  \<open>update_date\<close> (an update of the row with this key, or an insert when it is gone), with
  its \<open>post_save\<close>.
\<close>

definition media_file_save ::
    "env \<Rightarrow> settings \<Rightarrow> encoding \<Rightarrow> world \<Rightarrow> (py_error \<times> world) + (encoding \<times> world)" where
  "media_file_save ev st e w =
     (let e' = e\<lparr>media_file := upload_name ev e, update_date := now w\<rparr>;
          rows = (if encoding_id e' \<in> encoding_id ` set (encodings w)
                  then map (\<lambda>r. if encoding_id r = encoding_id e' then e' else r) (encodings w)
                  else encodings w @ [e'])
      in case post_save_other st e' (w\<lparr>encodings := rows\<rparr>) of
           Inl x \<Rightarrow> Inl x
         | Inr w' \<Rightarrow> Inr (e', w'))"

text \<open>\<open>encoding_file_delete\<close>, the \<open>post_delete\<close> handler.\<close>

definition encoding_file_delete ::
    "settings \<Rightarrow> encoding \<Rightarrow> world \<Rightarrow> (py_error \<times> world) + world" where
  "encoding_file_delete st instance w =
     (case file_path st (media_file instance) of
        Inl _ \<Rightarrow> Inr w
      | Inr p \<Rightarrow>
          (let w1 = log_event (Rm_file p) w
           in if \<not> chunk instance then post_encode_actions st instance ''delete'' w1
              else Inr w1))"

text \<open>
  The \<open>post_delete\<close> signal for a list of deleted rows; an exception ends it. The handler
  raises only for a job whose media is not in the table.
\<close>

fun send_post_delete ::
    "settings \<Rightarrow> encoding list \<Rightarrow> world \<Rightarrow> (py_error \<times> world) + world" where
  "send_post_delete st [] w = Inr w"
| "send_post_delete st (r # rs) w =
     (case encoding_file_delete st r w of
        Inl x \<Rightarrow> Inl x
      | Inr w' \<Rightarrow> send_post_delete st rs w')"

text \<open>
  \<open>queryset.delete()\<close> and \<open>instance.delete()\<close>: the rows with these keys leave the table
  in one statement, then \<open>post_delete\<close> is sent for each deleted row, highest key first
  (Django's collector sorts the rows by key and reverses them).
\<close>

definition delete_rows ::
    "settings \<Rightarrow> encoding list \<Rightarrow> world \<Rightarrow> (py_error \<times> world) + world" where
  "delete_rows st who w =
     send_post_delete st (rev (sort_key encoding_id who))
       (w\<lparr>encodings := filter (\<lambda>r. encoding_id r \<notin> set (map encoding_id who)) (encodings w)\<rparr>)"

text \<open>The state a step leaves, whether it returned or raised.\<close>

definition state_after :: "(py_error \<times> world) + world \<Rightarrow> world" where
  "state_after r = (case r of Inl (e, w) \<Rightarrow> w | Inr w \<Rightarrow> w)"

section \<open>The chunk coordinator: \<open>encoding_file_save\<close>\<close>

text \<open>
  The sibling query of the success branch: the chunk rows of the same media and profile
  that carry the same \<open>chunks_info\<close>, by \<open>add_date\<close> (rows with equal dates keep the
  table's order). Profiles are compared by primary key, as Django compares rows.
\<close>

definition success_chunks :: "encoding \<Rightarrow> world \<Rightarrow> encoding list" where
  "success_chunks instance w =
     sort_key add_date
       (filter (\<lambda>e. media e = media instance
                   \<and> profile_id (profile e) = profile_id (profile instance)
                   \<and> chunks_info e = chunks_info instance \<and> chunk e) (encodings w))"

text \<open>The sibling query of the fail branch: it does not filter on the profile.\<close>

definition fail_chunks :: "encoding \<Rightarrow> world \<Rightarrow> encoding list" where
  "fail_chunks instance w =
     sort_key add_date
       (filter (\<lambda>e. media e = media instance
                   \<and> chunks_info e = chunks_info instance \<and> chunk e) (encodings w))"

text \<open>
  The two validation loops. The first leaves at the first expected chunk file for which
  \<open>chunks.filter(chunk_file_path=chunk).exists()\<close> is false, the second at the first
  sibling for which \<open>chunk.media_file and chunk.media_file.path\<close> is falsy.
\<close>

fun all_exist :: "string list \<Rightarrow> encoding list \<Rightarrow> bool" where
  "all_exist [] chunks = True"
| "all_exist (c # cs) chunks =
     (if filter (\<lambda>e. chunk_file_path e = c) chunks = [] then False else all_exist cs chunks)"

fun all_have_files :: "settings \<Rightarrow> encoding list \<Rightarrow> bool" where
  "all_have_files st [] = True"
| "all_have_files st (c # cs) =
     (if \<not> (media_file c \<noteq> '''' \<and> (case file_path st (media_file c) of Inl _ \<Rightarrow> False | Inr p \<Rightarrow> p \<noteq> ''''))
      then False else all_have_files st cs)"

definition complete_check :: "settings \<Rightarrow> string list \<Rightarrow> encoding list \<Rightarrow> bool" where
  "complete_check st orig_chunks chunks = (all_exist orig_chunks chunks \<and> all_have_files st chunks)"

text \<open>
  The final validation "to avoid double-run", on the table as it is at that moment: the
  rows of the media and profile with the same \<open>chunks_info\<close> are counted (chunk or not);
  on a match every other row of the media and profile is deleted, otherwise the new one.
\<close>

definition final_validation ::
    "settings \<Rightarrow> string list \<Rightarrow> encoding \<Rightarrow> encoding \<Rightarrow> world \<Rightarrow> (py_error \<times> world) + world" where
  "final_validation st orig_chunks instance encoding w =
     (if length orig_chunks =
           length (filter (\<lambda>e. media e = media instance
                             \<and> profile_id (profile e) = profile_id (profile instance)
                             \<and> chunks_info e = chunks_info instance) (encodings w))
      then delete_rows st
             (filter (\<lambda>e. media e = media encoding
                         \<and> profile_id (profile e) = profile_id (profile encoding)
                         \<and> encoding_id e \<noteq> encoding_id encoding) (encodings w)) w
      else delete_rows st [encoding] w)"

text \<open>The source chunk files are removed once no row carries the manifest any more.\<close>

definition cleanup_chunk_files :: "string list \<Rightarrow> encoding \<Rightarrow> world \<Rightarrow> world" where
  "cleanup_chunk_files orig_chunks instance w =
     (if filter (\<lambda>e. chunks_info e = chunks_info instance) (encodings w) = []
      then fold (\<lambda>c. log_event (Rm_file c)) orig_chunks w
      else w)"

text \<open>
  The body of \<open>if complete:\<close>. An exception leaves with the state reached so far;
  \<open>min\<close> and \<open>max\<close> of no sibling raise \<open>ValueError\<close>.
\<close>

definition concat_chunks ::
    "env \<Rightarrow> settings \<Rightarrow> string list \<Rightarrow> encoding list \<Rightarrow> encoding \<Rightarrow> world
      \<Rightarrow> (py_error \<times> world) + (bool option \<times> world)" where
  "concat_chunks ev st orig_chunks chunks instance w =
     (case chunks_paths_of st chunks of
        Inl e \<Rightarrow> Inl (e, w)
      | Inr chunks_paths \<Rightarrow>
          (let w1 = log_event (Run_concat chunks_paths) w;
               stdout = run_concat ev chunks_paths;
               all_logs = join nl (map logs chunks);
               encoding = (new_encoding (media instance) (profile instance))
                 \<lparr>status := ''success'', progress := 100,
                  logs := repr_list ev chunks_paths @ nl @ stdout @ nl @ all_logs,
                  worker := dumps_workers ev (set (map worker chunks))\<rparr>
           in if chunks = [] then Inl (ValueError, w1)
              else
                (let start_date = Min (set (map add_date chunks));
                     end_date = Max (set (map update_date chunks))
                 in case save_new st
                           (encoding\<lparr>total_run_time := timedelta_seconds (end_date - start_date)\<rparr>)
                           w1 of
                      Inl x \<Rightarrow> Inl x
                    | Inr (encoding1, w2) \<Rightarrow>
                        (case media_file_save ev st encoding1 w2 of
                           Inl x \<Rightarrow> Inl x
                         | Inr (encoding2, w3) \<Rightarrow>
                             (case final_validation st orig_chunks instance encoding2 w3 of
                                Inl x \<Rightarrow> Inl x
                              | Inr w4 \<Rightarrow>
                                  (case post_encode_actions st instance ''add''
                                          (cleanup_chunk_files orig_chunks instance w4) of
                                     Inl x \<Rightarrow> Inl x
                                   | Inr w5 \<Rightarrow> Inr (None, w5)))))))"

text \<open>The branch \<open>elif instance.chunk and instance.status == "fail"\<close>.\<close>

definition chunk_failed ::
    "env \<Rightarrow> settings \<Rightarrow> encoding \<Rightarrow> world \<Rightarrow> (py_error \<times> world) + (bool option \<times> world)" where
  "chunk_failed ev st instance w =
     (let encoding = (new_encoding (media instance) (profile instance))
            \<lparr>status := ''fail'', progress := 100\<rparr>;
          chunks = fail_chunks instance w
      in case chunks_paths_of st chunks of
           Inl e \<Rightarrow> Inl (e, w)
         | Inr chunks_paths \<Rightarrow>
             (let all_logs = join nl (map logs chunks);
                  encoding' = encoding
                    \<lparr>logs := repr_list ev chunks_paths @ nl @ all_logs,
                     worker := dumps_workers ev (set (map worker chunks))\<rparr>
              in if chunks = [] then Inl (ValueError, w)
                 else
                   (let start_date = Min (set (map add_date chunks));
                        end_date = Max (set (map update_date chunks))
                    in case save_new st
                              (encoding'\<lparr>total_run_time := timedelta_seconds (end_date - start_date)\<rparr>)
                              w of
                         Inl x \<Rightarrow> Inl x
                       | Inr (encoding1, w1) \<Rightarrow>
                           (case delete_rows st
                                   (filter (\<lambda>e. media e = media encoding1
                                               \<and> profile_id (profile e) = profile_id (profile encoding1)
                                               \<and> encoding_id e \<noteq> encoding_id encoding1)
                                      (encodings w1)) w1 of
                              Inl x \<Rightarrow> Inl x
                            | Inr w2 \<Rightarrow> Inr (None, w2)))))"

text \<open>
  The handler. It returns \<open>False\<close> where the manifest does not parse and \<open>None\<close> elsewhere.
\<close>

definition encoding_file_save ::
    "env \<Rightarrow> settings \<Rightarrow> encoding \<Rightarrow> world \<Rightarrow> (py_error \<times> world) + (bool option \<times> world)" where
  "encoding_file_save ev st instance w =
     (if chunk instance \<and> status instance = ''success'' then
        (if media_file instance \<noteq> '''' then
           (case json_keys ev (chunks_info instance) of
              None \<Rightarrow>
                (case delete_rows st [instance] w of
                   Inl x \<Rightarrow> Inl x
                 | Inr w' \<Rightarrow> Inr (Some False, w'))
            | Some orig_chunks \<Rightarrow>
                (let chunks = success_chunks instance w
                 in if complete_check st orig_chunks chunks
                    then concat_chunks ev st orig_chunks chunks instance w
                    else Inr (None, w)))
         else Inr (None, w))
      else if chunk instance \<and> status instance = ''fail'' then chunk_failed ev st instance w
      else (case post_save_other st instance w of
              Inl x \<Rightarrow> Inl x
            | Inr w' \<Rightarrow> Inr (None, w')))"

section \<open>Dispatch: \<open>Media.encode\<close>\<close>

text \<open>
  The four lines both branches share: a pending job row is saved first, then one unit of
  work is queued that carries its key and callback address.
\<close>

definition create_and_queue ::
    "settings \<Rightarrow> media_row \<Rightarrow> bool \<Rightarrow> int \<Rightarrow> encode_profile \<Rightarrow> world
      \<Rightarrow> (py_error \<times> world) + world" where
  "create_and_queue st self force priority p w =
     (case save_new st (new_encoding (media_id self) p) w of
        Inl x \<Rightarrow> Inl x
      | Inr (encoding, w1) \<Rightarrow>
          (let enc_url = SSL_FRONTEND_HOST st @ api_get_encoding st (encoding_id encoding)
           in Inr (apply_async
                     (Encode_media (friendly_token self) (profile_id p) (encoding_id encoding)
                        enc_url force priority) w1)))"

text \<open>
  \<open>profiles.remove(profile)\<close>: the first element equal to it goes, and Django compares
  rows by primary key. The loop only removes elements of a copy of the list, so the
  \<open>ValueError\<close> of a missing element cannot arise.
\<close>

fun remove_profile :: "encode_profile \<Rightarrow> encode_profile list \<Rightarrow> encode_profile list" where
  "remove_profile p [] = []"
| "remove_profile p (q # qs) =
     (if profile_id q = profile_id p then qs else q # remove_profile p qs)"

text \<open>
  The loop of the chunked branch over \<open>list(profiles)\<close>; the fourth argument is the copy
  still to visit, the fifth the list being shortened.
\<close>

fun encode_gifs ::
    "settings \<Rightarrow> media_row \<Rightarrow> bool \<Rightarrow> encode_profile list \<Rightarrow> encode_profile list \<Rightarrow> world
      \<Rightarrow> (py_error \<times> world) + (encode_profile list \<times> world)" where
  "encode_gifs st self force [] profiles w = Inr (profiles, w)"
| "encode_gifs st self force (p # rest) profiles w =
     (if extension p = ''gif''
      then (case create_and_queue st self force 0 p w of
              Inl x \<Rightarrow> Inl x
            | Inr w' \<Rightarrow> encode_gifs st self force rest (remove_profile p profiles) w')
      else encode_gifs st self force rest profiles w)"

text \<open>
  The test that ends in \<open>continue\<close>. Comparing the height with a missing resolution
  raises \<open>TypeError\<close>; a height of 0 is falsy and short-cuts the comparison.
\<close>

definition skip_profile :: "settings \<Rightarrow> media_row \<Rightarrow> encode_profile \<Rightarrow> py_error + bool" where
  "skip_profile st self p =
     (if extension p \<noteq> ''gif'' then
        (if video_height self \<noteq> 0 then
           (case resolution p of
              None \<Rightarrow> Inl TypeError
            | Some r \<Rightarrow>
                Inr (video_height self < r \<and> r \<notin> set (MINIMUM_RESOLUTIONS_TO_ENCODE st)))
         else Inr False)
      else Inr False)"

text \<open>\<open>9 if profile.resolution in settings.MINIMUM_RESOLUTIONS_TO_ENCODE else 0\<close>.\<close>

definition priority_of :: "settings \<Rightarrow> encode_profile \<Rightarrow> int" where
  "priority_of st p =
     (case resolution p of
        None \<Rightarrow> 0
      | Some r \<Rightarrow> if r \<in> set (MINIMUM_RESOLUTIONS_TO_ENCODE st) then 9 else 0)"

text \<open>The loop of the other branch. An exception keeps the jobs dispatched before it.\<close>

fun encode_whole ::
    "settings \<Rightarrow> media_row \<Rightarrow> bool \<Rightarrow> encode_profile list \<Rightarrow> world \<Rightarrow> py_error option \<times> world" where
  "encode_whole st self force [] w = (None, w)"
| "encode_whole st self force (p # rest) w =
     (case skip_profile st self p of
        Inl e \<Rightarrow> (Some e, w)
      | Inr skip \<Rightarrow>
          if skip then encode_whole st self force rest w
          else (case create_and_queue st self force (priority_of st p) p w of
                  Inl (e, w') \<Rightarrow> (Some e, w')
                | Inr w' \<Rightarrow> encode_whole st self force rest w'))"

text \<open>
  The first lines of \<open>Media.encode\<close>: without profiles the active rows of the
  \<open>EncodeProfile\<close> table are taken, in the table's default order.
\<close>

definition profiles_or_active ::
    "encode_profile list \<Rightarrow> encode_profile list option \<Rightarrow> encode_profile list" where
  "profiles_or_active profile_table profiles =
     (case profiles of None \<Rightarrow> filter active profile_table | Some ps \<Rightarrow> ps)"

text \<open>
  \<open>Media.encode\<close>. The result \<open>None\<close> stands for the return of \<open>True\<close>, \<open>Some e\<close> for
  the exception \<open>e\<close>; the state holds what was dispatched up to then.
\<close>

definition encode ::
    "settings \<Rightarrow> encode_profile list \<Rightarrow> media_row \<Rightarrow> encode_profile list option \<Rightarrow> bool \<Rightarrow> bool
      \<Rightarrow> world \<Rightarrow> py_error option \<times> world" where
  "encode st profile_table self profiles force chunkize w =
     (let profiles = profiles_or_active profile_table profiles
      in if duration self > CHUNKIZE_VIDEO_DURATION st \<and> chunkize then
           (case encode_gifs st self force profiles profiles w of
              Inl (e, w1) \<Rightarrow> (Some e, w1)
            | Inr (profiles', w1) \<Rightarrow>
                (let profile_ids = map profile_id profiles'
                 in (None, apply_async (Chunkize_media (friendly_token self) profile_ids force) w1)))
         else encode_whole st self force profiles w)"

section \<open>Progress reports: \<open>Encoding.set_progress\<close>\<close>

text \<open>
  The values a caller can pass. \<open>isinstance(v, int)\<close> holds for integers and for the two
  booleans, which Python counts as the integers 1 and 0.
\<close>

datatype py_float = Finite rat | Nan | Infinity bool

datatype py_value = Py_int int | Py_bool bool | Py_float py_float | Py_str string | Py_none

fun isinstance_int :: "py_value \<Rightarrow> bool" where
  "isinstance_int (Py_int i) = True"
| "isinstance_int (Py_bool b) = True"
| "isinstance_int v = False"

fun int_value :: "py_value \<Rightarrow> int" where
  "int_value (Py_int i) = i"
| "int_value (Py_bool b) = (if b then 1 else 0)"
| "int_value v = 0"

text \<open>
  \<open>self.save(update_fields=["progress"])\<close>: Django refuses a job that has no key
  (\<open>ValueError\<close>) and a job whose row is gone (\<open>DatabaseError\<close>: the update affected no
  row), and nothing is written; otherwise the column is written to the row with this key
  and \<open>post_save\<close> runs on the instance, after the write, so that an exception of the
  handler leaves the column written. The two commands \<open>Encoding.save\<close> runs before
  (\<open>stat\<close> and \<open>md5sum\<close>) fill \<open>size\<close> and \<open>md5sum\<close>, which are not kept here.
\<close>

definition save_progress ::
    "env \<Rightarrow> settings \<Rightarrow> encoding \<Rightarrow> world \<Rightarrow> (py_error \<times> world) + world" where
  "save_progress ev st self w =
     (if encoding_id self = 0 then Inl (ValueError, w)
      else if encoding_id self \<notin> encoding_id ` set (encodings w) then Inl (DatabaseError, w)
      else
        (case encoding_file_save ev st self
                (w\<lparr>encodings :=
                     map (\<lambda>r. if encoding_id r = encoding_id self then r\<lparr>progress := progress self\<rparr> else r)
                       (encodings w)\<rparr>) of
           Inl x \<Rightarrow> Inl x
         | Inr (_, w') \<Rightarrow> Inr w'))"

definition set_progress ::
    "env \<Rightarrow> settings \<Rightarrow> encoding \<Rightarrow> py_value \<Rightarrow> bool \<Rightarrow> world
      \<Rightarrow> (py_error \<times> encoding \<times> world) + (bool \<times> encoding \<times> world)" where
  "set_progress ev st self p commit w =
     (if isinstance_int p \<and> 0 \<le> int_value p \<and> int_value p \<le> 100 then
        (let self' = self\<lparr>progress := int_value p\<rparr>
         in if commit then
              (case save_progress ev st self' w of
                 Inl (e, w') \<Rightarrow> Inl (e, self', w')
               | Inr w' \<Rightarrow> Inr (True, self', w'))
            else Inr (True, self', w))
      else Inr (False, self, w))"

section \<open>Probe: \<open>Media.set_media_type\<close>\<close>

text \<open>
  The dictionary of \<open>helpers.media_file_info\<close>, as far as it is read: the three flags,
  the durations as the floats that \<open>float(...)\<close> gives (absent keys are \<open>None\<close> and count
  as 0), the height, and the values copied into the row (\<open>json.dumps(ret)\<close>, \<open>None\<close> where
  it raises \<open>TypeError\<close>).
\<close>

record probe_info =
  ret_fail :: bool
  ret_is_video :: bool
  ret_is_audio :: bool
  ret_video_duration :: "py_float option"
  ret_video_height :: "int option"
  ret_audio_duration :: "py_float option"
  ret_json :: "string option"
  ret_md5sum :: "string option"
  ret_file_size :: "string option"

text \<open>Python's \<open>round\<close> of a float, ties to the even neighbour, and \<open>int\<close>, towards zero.\<close>

definition py_round :: "rat \<Rightarrow> int" where
  "py_round x =
     (let f = \<lfloor>x\<rfloor>; d = x - of_int f
      in if d < 1 / 2 then f else if 1 / 2 < d then f + 1 else if even f then f else f + 1)"

definition py_trunc :: "rat \<Rightarrow> int" where
  "py_trunc x = (if 0 \<le> x then \<lfloor>x\<rfloor> else \<lceil>x\<rceil>)"

text \<open>\<open>int(round(float(v)))\<close> and \<open>int(float(v))\<close> with the default 0 of \<open>get\<close>.\<close>

definition int_round_float :: "py_float option \<Rightarrow> py_error + int" where
  "int_round_float v =
     (case v of
        None \<Rightarrow> Inr 0
      | Some (Finite x) \<Rightarrow> Inr (py_round x)
      | Some Nan \<Rightarrow> Inl ValueError
      | Some (Infinity _) \<Rightarrow> Inl OverflowError)"

definition int_float :: "py_float option \<Rightarrow> py_error + int" where
  "int_float v =
     (case v of
        None \<Rightarrow> Inr 0
      | Some (Finite x) \<Rightarrow> Inr (py_trunc x)
      | Some Nan \<Rightarrow> Inl ValueError
      | Some (Infinity _) \<Rightarrow> Inl OverflowError)"

text \<open>
  The first step of \<open>set_media_type\<close>: the type named by \<open>helpers.get_file_type\<close>,
  or the type the row already has when that gives \<open>None\<close>.
\<close>

definition kind_media_type :: "string option \<Rightarrow> media_row \<Rightarrow> string" where
  "kind_media_type kind self =
     (case kind of
        None \<Rightarrow> media_type self
      | Some k \<Rightarrow>
          (if k = ''image'' then ''image''
           else if k = ''pdf'' then ''pdf''
           else if k = ''audio'' then ''audio''
           else ''video''))"

text \<open>
  \<open>set_media_type\<close> on the row in memory; \<open>kind\<close> is the answer of
  \<open>helpers.get_file_type\<close>. The result carries the columns handed to \<open>save\<close>.
\<close>

definition set_media_type ::
    "string option \<Rightarrow> probe_info \<Rightarrow> bool \<Rightarrow> media_row \<Rightarrow> py_error + (media_row \<times> string list)" where
  "set_media_type kind ret save self =
     (let self1 = self\<lparr>media_type := kind_media_type kind self\<rparr>;
          saved = (if save then [''media_type'', ''duration'', ''media_info'', ''video_height'',
                                 ''size'', ''md5sum'', ''encoding_status''] else [])
      in if media_type self1 \<in> {''image'', ''pdf''} then
           Inr (self1\<lparr>encoding_status := ''success''\<rparr>, saved)
         else
           (let self2 =
                  (if ret_fail ret then self1\<lparr>media_type := '''', encoding_status := ''fail''\<rparr>
                   else if ret_is_video ret \<or> ret_is_audio ret then
                     self1\<lparr>media_info := (case ret_json ret of None \<Rightarrow> '''' | Some j \<Rightarrow> j),
                           md5sum := ret_md5sum ret, file_size := ret_file_size ret\<rparr>
                   else self1\<lparr>media_type := '''', encoding_status := ''fail''\<rparr>)
            in if ret_is_video ret then
                 (case int_round_float (ret_video_duration ret) of
                    Inl e \<Rightarrow> Inl e
                  | Inr d \<Rightarrow>
                      (case ret_video_height ret of
                         None \<Rightarrow> Inl TypeError
                       | Some h \<Rightarrow>
                           Inr (self2\<lparr>media_type := ''video'', duration := d, video_height := h\<rparr>,
                                saved)))
               else if ret_is_audio ret then
                 (case int_float (ret_audio_duration ret) of
                    Inl e \<Rightarrow> Inl e
                  | Inr d \<Rightarrow>
                      Inr (self2\<lparr>media_type := ''audio'', duration := d,
                                 encoding_status := ''success''\<rparr>, saved))
               else Inr (self2, saved)))"

text \<open>
  \<open>media_init\<close>, as far as it dispatches work: only a video is encoded. The thumbnail
  calls and the publication state of a refused file are left out; \<open>is_media_allowed_type\<close>
  comes from \<open>methods.py\<close>. The uploaded file is a required column, so its path is there.
\<close>

definition media_init ::
    "settings \<Rightarrow> encode_profile list \<Rightarrow> (media_row \<Rightarrow> bool) \<Rightarrow> string option \<Rightarrow> probe_info
      \<Rightarrow> media_row \<Rightarrow> world \<Rightarrow> (py_error \<times> world) + (bool \<times> media_row \<times> world)" where
  "media_init st profile_table is_media_allowed_type kind ret self w =
     (case set_media_type kind ret True self of
        Inl e \<Rightarrow> Inl (e, w)
      | Inr (self', _) \<Rightarrow>
          if \<not> is_media_allowed_type self' then
            Inr (False, self', log_event (Rm_file (storage_path st (source_file self'))) w)
          else if media_type self' = ''video'' then
            (case encode st profile_table self' None True True w of
               (Some e, w1) \<Rightarrow> Inl (e, w1)
             | (None, w1) \<Rightarrow>
                 Inr (True, self',
                      apply_async (Produce_sprite_from_video (friendly_token self')) w1))
          else Inr (True, self', w))"

section \<open>What a dispatch is expected to leave\<close>

text \<open>
  The rows and the queue entries that dispatching a list of profiles leaves: one pending
  job per profile, not a chunk, with consecutive keys from \<open>n\<close> and the time stamp \<open>t\<close>,
  and for each row one \<open>encode_media\<close> task with the priority \<open>prio\<close> gives its profile.
\<close>

fun rows_for :: "media_row \<Rightarrow> nat \<Rightarrow> int \<Rightarrow> encode_profile list \<Rightarrow> encoding list" where
  "rows_for self n t [] = []"
| "rows_for self n t (p # ps) =
     (new_encoding (media_id self) p)\<lparr>encoding_id := n, add_date := t, update_date := t\<rparr>
       # rows_for self (Suc n) t ps"

definition queued_for ::
    "settings \<Rightarrow> media_row \<Rightarrow> bool \<Rightarrow> (encode_profile \<Rightarrow> int) \<Rightarrow> encoding list \<Rightarrow> task list" where
  "queued_for st self force prio rows =
     map (\<lambda>e. Encode_media (friendly_token self) (profile_id (profile e)) (encoding_id e)
                 (SSL_FRONTEND_HOST st @ api_get_encoding st (encoding_id e)) force
                 (prio (profile e))) rows"

text \<open>The state after such a dispatch of the profiles \<open>ps\<close>.\<close>

definition dispatched ::
    "settings \<Rightarrow> media_row \<Rightarrow> bool \<Rightarrow> (encode_profile \<Rightarrow> int) \<Rightarrow> encode_profile list \<Rightarrow> world
      \<Rightarrow> world" where
  "dispatched st self force prio ps w =
     w\<lparr>encodings := encodings w @ rows_for self (next_id w) (now w) ps,
       next_id := next_id w + length ps,
       queue := queue w @ queued_for st self force prio (rows_for self (next_id w) (now w) ps)\<rparr>"

fun is_chunkize :: "task \<Rightarrow> bool" where
  "is_chunkize (Chunkize_media token ids force) = True"
| "is_chunkize t = False"

text \<open>Profiles read from one table: equal primary keys mean the same row.\<close>

definition pk_consistent :: "encode_profile list \<Rightarrow> bool" where
  "pk_consistent ps = (\<forall>p \<in> set ps. \<forall>q \<in> set ps. profile_id p = profile_id q \<longrightarrow> p = q)"

section \<open>Sample rows\<close>

definition mp4_720 :: encode_profile where
  "mp4_720 = \<lparr>profile_id = 1, extension = ''mp4'', resolution = Some 720,
              codec = Some ''h264'', active = True\<rparr>"

definition mp4_1080 :: encode_profile where
  "mp4_1080 = \<lparr>profile_id = 2, extension = ''mp4'', resolution = Some 1080,
               codec = Some ''h264'', active = True\<rparr>"

definition gif_preview :: encode_profile where
  "gif_preview = \<lparr>profile_id = 3, extension = ''gif'', resolution = None,
                  codec = None, active = True\<rparr>"

definition mp4_240 :: encode_profile where
  "mp4_240 = \<lparr>profile_id = 4, extension = ''mp4'', resolution = Some 240,
              codec = Some ''h264'', active = True\<rparr>"

definition sample_media :: media_row where
  "sample_media = \<lparr>media_id = 7, friendly_token = ''tok'', source_file = ''src.mov'',
     duration = 7200, encoding_status = ''pending'', media_type = ''video'',
     media_info = [], video_height = 1080, md5sum = None, file_size = None,
     preview_file_path = []\<rparr>"

definition three_jobs :: "encoding list" where
  "three_jobs =
     [(new_encoding 7 mp4_720)\<lparr>encoding_id := 1, status := ''fail''\<rparr>,
      (new_encoding 7 mp4_1080)\<lparr>encoding_id := 2, status := ''success''\<rparr>,
      (new_encoding 7 mp4_720)\<lparr>encoding_id := 3, status := ''running''\<rparr>]"

text \<open>
  Sample settings and surroundings. The sample manifests stand for JSON objects whose keys
  are the listed chunk files; any other text does not parse.
\<close>

definition sample_settings :: settings where
  "sample_settings = \<lparr>CHUNKIZE_VIDEO_DURATION = 3600, MINIMUM_RESOLUTIONS_TO_ENCODE = [240, 360],
     SSL_FRONTEND_HOST = ''https://host'', MEDIA_ROOT = ''/media/'',
     api_get_encoding = (\<lambda>n. if n = 100 then ''/api/v1/encode/100''
                              else if n = 101 then ''/api/v1/encode/101''
                              else ''/api/v1/encode/n'')\<rparr>"

definition sample_env :: env where
  "sample_env = \<lparr>json_keys = (\<lambda>s. if s = ''manifest-a'' then Some [''/chunks/a'']
                                  else if s = ''manifest-ab'' then Some [''/chunks/a'', ''/chunks/b'']
                                  else None),
     run_concat = (\<lambda>ps. ''ok''), repr_list = (\<lambda>ps. concat ps),
     dumps_workers = (\<lambda>ws. ''workers''), upload_name = (\<lambda>e. ''encoded/out.mp4'')\<rparr>"

text \<open>A chunk job of media 7 and profile \<open>mp4_720\<close>: key, status, manifest, chunk file, output.\<close>

definition chunk_row :: "nat \<Rightarrow> string \<Rightarrow> string \<Rightarrow> string \<Rightarrow> string \<Rightarrow> encoding" where
  "chunk_row i s info src out =
     (new_encoding 7 mp4_720)\<lparr>encoding_id := i, status := s, chunk := True,
        chunks_info := info, chunk_file_path := src, media_file := out,
        add_date := int i, update_date := int i + 5000000\<rparr>"

definition world_of :: "encoding list \<Rightarrow> world" where
  "world_of rows = \<lparr>encodings = rows, medias = [sample_media], next_id = 100, now = 9000000,
                     events = [], queue = []\<rparr>"

text \<open>Probe results: a video of 3.5 seconds and 720 lines, a sound file of 9.5 seconds.\<close>

definition video_probe :: probe_info where
  "video_probe = \<lparr>ret_fail = False, ret_is_video = True, ret_is_audio = False,
     ret_video_duration = Some (Finite (7 / 2)), ret_video_height = Some 720,
     ret_audio_duration = None, ret_json = Some ''{}'', ret_md5sum = Some ''d41d'',
     ret_file_size = Some ''1MB''\<rparr>"

definition audio_probe :: probe_info where
  "audio_probe = \<lparr>ret_fail = False, ret_is_video = False, ret_is_audio = True,
     ret_video_duration = None, ret_video_height = None,
     ret_audio_duration = Some (Finite (19 / 2)), ret_json = Some ''{}'',
     ret_md5sum = Some ''d41d'', ret_file_size = Some ''1MB''\<rparr>"

text \<open>
  Jobs that the aggregate status must not count: a finished chunk of media 7, a finished
  gif job of media 7, and a finished mp4 job of another media.
\<close>

definition uncounted_jobs :: "encoding list" where
  "uncounted_jobs =
     [(new_encoding 7 mp4_720)\<lparr>encoding_id := 4, status := ''success'', chunk := True\<rparr>,
      (new_encoding 7 gif_preview)\<lparr>encoding_id := 5, status := ''success''\<rparr>,
      (new_encoding 8 mp4_720)\<lparr>encoding_id := 6, status := ''success''\<rparr>]"


section \<open>Properties of the aggregate status\<close>

lemma mp4_statuses_eq:
  "mp4_statuses encs self =
     status ` {enc \<in> set encs. media enc = media_id self \<and> extension (profile enc) = ''mp4''
                              \<and> \<not> chunk enc}"
  by (auto simp: mp4_statuses_def mp4_non_chunk_def)

lemma mp4_statuses_append_uncounted:
  assumes "\<forall>enc \<in> set extra. media enc \<noteq> media_id self \<or> extension (profile enc) \<noteq> ''mp4''
             \<or> chunk enc"
  shows "mp4_statuses (encs @ extra) self = mp4_statuses encs self"
proof -
  from assms have "filter (\<lambda>enc. media enc = media_id self \<and> extension (profile enc) = ''mp4''
      \<and> \<not> chunk enc) extra = []"
    by (auto simp: filter_empty_conv)
  then show ?thesis by (simp add: mp4_statuses_def mp4_non_chunk_def)
qed

text \<open>
  C4. \<open>set_encoding_status\<close> changes the column \<open>encoding_status\<close> only, and the value it
  writes is read off the rows of the table that belong to this media, have an mp4 profile
  and are not chunks: pending when there is no such row, else success when one of them is
  success, else running when one of them is running, else fail. It depends on those rows
  only through the set of their statuses; rows of another media, of a profile that is not
  mp4, and chunk rows do not count, whatever their status.
\<close>

theorem set_encoding_status_precedence:
  "encoding_status (set_encoding_status encs self) =
     (if \<not> (\<exists>enc \<in> set encs. media enc = media_id self \<and> extension (profile enc) = ''mp4''
                \<and> \<not> chunk enc) then ''pending''
      else if \<exists>enc \<in> set encs. media enc = media_id self \<and> extension (profile enc) = ''mp4''
                \<and> \<not> chunk enc \<and> status enc = ''success'' then ''success''
      else if \<exists>enc \<in> set encs. media enc = media_id self \<and> extension (profile enc) = ''mp4''
                \<and> \<not> chunk enc \<and> status enc = ''running'' then ''running''
      else ''fail'')
   \<and> set_encoding_status encs self =
       self\<lparr>encoding_status := encoding_status (set_encoding_status encs self)\<rparr>
   \<and> (status ` {enc \<in> set encs. media enc = media_id self \<and> extension (profile enc) = ''mp4''
                    \<and> \<not> chunk enc}
        = status ` {enc \<in> set encs'. media enc = media_id self' \<and> extension (profile enc) = ''mp4''
                    \<and> \<not> chunk enc} \<longrightarrow>
        encoding_status (set_encoding_status encs self) =
        encoding_status (set_encoding_status encs' self'))
   \<and> ((\<forall>enc \<in> set extra. media enc \<noteq> media_id self \<or> extension (profile enc) \<noteq> ''mp4''
           \<or> chunk enc) \<longrightarrow>
        set_encoding_status (encs @ extra) self = set_encoding_status encs self)"
proof (intro conjI)
  let ?P = "\<lambda>enc. media enc = media_id self \<and> extension (profile enc) = ''mp4'' \<and> \<not> chunk enc"
  have empty: "mp4_statuses encs self = {} \<longleftrightarrow> \<not> (\<exists>enc \<in> set encs. ?P enc)"
    by (auto simp: mp4_statuses_eq)
  have mem: "s \<in> mp4_statuses encs self \<longleftrightarrow> (\<exists>enc \<in> set encs. ?P enc \<and> status enc = s)" for s
    by (auto simp: mp4_statuses_eq)
  show "encoding_status (set_encoding_status encs self) =
     (if \<not> (\<exists>enc \<in> set encs. media enc = media_id self \<and> extension (profile enc) = ''mp4''
                \<and> \<not> chunk enc) then ''pending''
      else if \<exists>enc \<in> set encs. media enc = media_id self \<and> extension (profile enc) = ''mp4''
                \<and> \<not> chunk enc \<and> status enc = ''success'' then ''success''
      else if \<exists>enc \<in> set encs. media enc = media_id self \<and> extension (profile enc) = ''mp4''
                \<and> \<not> chunk enc \<and> status enc = ''running'' then ''running''
      else ''fail'')"
  proof -
    have "encoding_status (set_encoding_status encs self) =
       (if mp4_statuses encs self = {} then ''pending''
        else if ''success'' \<in> mp4_statuses encs self then ''success''
        else if ''running'' \<in> mp4_statuses encs self then ''running''
        else ''fail'')"
      by (simp add: set_encoding_status_def Let_def)
    then show ?thesis
      unfolding empty mem conj_assoc .
  qed
next
  show "set_encoding_status encs self =
       self\<lparr>encoding_status := encoding_status (set_encoding_status encs self)\<rparr>"
    by (simp add: set_encoding_status_def Let_def)
next
  show "status ` {enc \<in> set encs. media enc = media_id self \<and> extension (profile enc) = ''mp4''
                    \<and> \<not> chunk enc}
        = status ` {enc \<in> set encs'. media enc = media_id self' \<and> extension (profile enc) = ''mp4''
                    \<and> \<not> chunk enc} \<longrightarrow>
        encoding_status (set_encoding_status encs self) =
        encoding_status (set_encoding_status encs' self')"
    by (simp add: set_encoding_status_def Let_def mp4_statuses_eq)
next
  show "(\<forall>enc \<in> set extra. media enc \<noteq> media_id self \<or> extension (profile enc) \<noteq> ''mp4''
           \<or> chunk enc) \<longrightarrow>
        set_encoding_status (encs @ extra) self = set_encoding_status encs self"
    by (simp add: set_encoding_status_def Let_def mp4_statuses_append_uncounted)
qed

text \<open>
  The jobs fail, success and running of media 7 give success, in any order and with the
  uncounted jobs added; the uncounted jobs alone, all of them success, give pending.
\<close>

theorem set_encoding_status_precedence_witness:
  "encoding_status (set_encoding_status three_jobs sample_media) = ''success''
   \<and> encoding_status (set_encoding_status (rev three_jobs) sample_media) = ''success''
   \<and> encoding_status (set_encoding_status (three_jobs @ uncounted_jobs) sample_media) = ''success''
   \<and> encoding_status (set_encoding_status uncounted_jobs sample_media) = ''pending''
   \<and> set_encoding_status uncounted_jobs sample_media = sample_media"
proof -
  note prec = set_encoding_status_precedence [THEN conjunct1]
  note same = set_encoding_status_precedence [THEN conjunct2, THEN conjunct2, THEN conjunct1, THEN mp]
  note more = set_encoding_status_precedence [THEN conjunct2, THEN conjunct2, THEN conjunct2, THEN mp]
  note only = set_encoding_status_precedence [THEN conjunct2, THEN conjunct1]
  have a: "encoding_status (set_encoding_status three_jobs sample_media) = ''success''"
    unfolding prec [of three_jobs sample_media]
    by (simp add: three_jobs_def sample_media_def new_encoding_def mp4_720_def mp4_1080_def)
  have "encoding_status (set_encoding_status (rev three_jobs) sample_media) =
        encoding_status (set_encoding_status three_jobs sample_media)"
    by (rule same) simp
  with a have b: "encoding_status (set_encoding_status (rev three_jobs) sample_media) = ''success''"
    by simp
  have "set_encoding_status (three_jobs @ uncounted_jobs) sample_media =
        set_encoding_status three_jobs sample_media"
    by (rule more)
      (simp add: uncounted_jobs_def sample_media_def new_encoding_def mp4_720_def gif_preview_def)
  with a have c: "encoding_status (set_encoding_status (three_jobs @ uncounted_jobs) sample_media)
      = ''success''"
    by simp
  have d: "encoding_status (set_encoding_status uncounted_jobs sample_media) = ''pending''"
    unfolding prec [of uncounted_jobs sample_media]
    by (simp add: uncounted_jobs_def sample_media_def new_encoding_def mp4_720_def gif_preview_def)
  from only [of uncounted_jobs sample_media] d
  have e: "set_encoding_status uncounted_jobs sample_media = sample_media"
    by (simp add: sample_media_def)
  from a b c d e show ?thesis by simp
qed

section \<open>Properties of the chunk coordinator\<close>

lemma storage_path_not_empty: "storage_path st name \<noteq> []"
  by (simp add: storage_path_def)

lemma all_exist_iff:
  "all_exist cs chunks \<longleftrightarrow> (\<forall>c \<in> set cs. \<exists>e \<in> set chunks. chunk_file_path e = c)"
  by (induction cs) (auto simp: filter_empty_conv)

lemma all_have_files_iff:
  "all_have_files st chunks \<longleftrightarrow> (\<forall>e \<in> set chunks. media_file e \<noteq> '''')"
  by (induction chunks) (auto simp: file_path_def storage_path_not_empty)

lemma encodings_log_event [simp]: "encodings (log_event ev w) = encodings w"
  by (simp add: log_event_def)

lemma medias_log_event [simp]: "medias (log_event ev w) = medias w"
  by (simp add: log_event_def)

lemma encodings_save_media [simp]: "encodings (save_media m w) = encodings w"
  by (simp add: save_media_def)

lemma media_ids_save_media [simp]:
  "map media_id (medias (save_media m w)) = map media_id (medias w)"
  by (simp add: save_media_def)

text \<open>\<open>post_encode_actions\<close> writes no encoding row, and keeps the keys of the media table.\<close>

lemma post_encode_actions_keeps:
  "encodings (state_after (post_encode_actions st e a w)) = encodings w
   \<and> map media_id (medias (state_after (post_encode_actions st e a w))) = map media_id (medias w)"
  by (simp add: post_encode_actions_def state_after_def Let_def
      split: option.split sum.split)

lemma encoding_file_delete_keeps:
  "encodings (state_after (encoding_file_delete st e w)) = encodings w
   \<and> map media_id (medias (state_after (encoding_file_delete st e w))) = map media_id (medias w)"
proof (cases "file_path st (media_file e)")
  case (Inl a)
  then show ?thesis by (simp add: encoding_file_delete_def state_after_def)
next
  case (Inr p)
  show ?thesis
  proof (cases "chunk e")
    case True
    with Inr show ?thesis by (simp add: encoding_file_delete_def state_after_def Let_def)
  next
    case False
    with Inr post_encode_actions_keeps [of st e "''delete''" "log_event (Rm_file p) w"]
    show ?thesis by (simp add: encoding_file_delete_def Let_def)
  qed
qed

lemma state_after_Inr [simp]: "state_after (Inr w) = w"
  by (simp add: state_after_def)

lemma state_after_Inl [simp]: "state_after (Inl (e, w)) = w"
  by (simp add: state_after_def)

lemma send_post_delete_keeps:
  "encodings (state_after (send_post_delete st rs w)) = encodings w
   \<and> map media_id (medias (state_after (send_post_delete st rs w))) = map media_id (medias w)"
proof (induction rs arbitrary: w)
  case Nil
  then show ?case by simp
next
  case (Cons r rs)
  show ?case
  proof (cases "encoding_file_delete st r w")
    case (Inl x)
    with encoding_file_delete_keeps [of st r w] show ?thesis
      by (cases x) simp
  next
    case (Inr w')
    with encoding_file_delete_keeps [of st r w] Cons.IH [of w'] show ?thesis
      by simp
  qed
qed

lemma delete_rows_encodings:
  "encodings (state_after (delete_rows st who w)) =
     filter (\<lambda>r. encoding_id r \<notin> set (map encoding_id who)) (encodings w)"
  by (simp add: delete_rows_def send_post_delete_keeps)

lemma delete_rows_medias:
  "map media_id (medias (state_after (delete_rows st who w))) = map media_id (medias w)"
  by (simp add: delete_rows_def send_post_delete_keeps)

text \<open>
  C2 (amended). For a successful chunk job with an output file and a manifest that parses,
  the completeness check passes exactly when every expected chunk file of the manifest has
  at least one sibling chunk row and every sibling chunk row has a stored output file;
  when it does not pass the handler changes nothing. How many siblings there are, and how
  often an expected chunk file occurs among them, plays no part.
\<close>

theorem complete_iff_present_and_stored:
  "(complete_check st orig_chunks (success_chunks instance w) \<longleftrightarrow>
     (\<forall>c \<in> set orig_chunks. \<exists>e \<in> set (encodings w).
         media e = media instance \<and> profile_id (profile e) = profile_id (profile instance)
         \<and> chunks_info e = chunks_info instance \<and> chunk e \<and> chunk_file_path e = c)
     \<and> (\<forall>e \<in> set (encodings w).
         media e = media instance \<and> profile_id (profile e) = profile_id (profile instance)
         \<and> chunks_info e = chunks_info instance \<and> chunk e \<longrightarrow> media_file e \<noteq> ''''))
   \<and> (chunk instance \<and> status instance = ''success'' \<and> media_file instance \<noteq> ''''
        \<and> json_keys ev (chunks_info instance) = Some orig_chunks
        \<and> \<not> complete_check st orig_chunks (success_chunks instance w)
      \<longrightarrow> encoding_file_save ev st instance w = Inr (None, w))"
proof (intro conjI)
  show "complete_check st orig_chunks (success_chunks instance w) \<longleftrightarrow>
     (\<forall>c \<in> set orig_chunks. \<exists>e \<in> set (encodings w).
         media e = media instance \<and> profile_id (profile e) = profile_id (profile instance)
         \<and> chunks_info e = chunks_info instance \<and> chunk e \<and> chunk_file_path e = c)
     \<and> (\<forall>e \<in> set (encodings w).
         media e = media instance \<and> profile_id (profile e) = profile_id (profile instance)
         \<and> chunks_info e = chunks_info instance \<and> chunk e \<longrightarrow> media_file e \<noteq> '''')"
    by (auto simp: complete_check_def all_exist_iff all_have_files_iff success_chunks_def)
next
  show "chunk instance \<and> status instance = ''success'' \<and> media_file instance \<noteq> ''''
        \<and> json_keys ev (chunks_info instance) = Some orig_chunks
        \<and> \<not> complete_check st orig_chunks (success_chunks instance w)
      \<longrightarrow> encoding_file_save ev st instance w = Inr (None, w)"
    by (simp add: encoding_file_save_def)
qed

text \<open>
  Two of the two expected chunks are present, but the second has no output file: the set is
  incomplete and the handler leaves the state alone.
\<close>

theorem complete_iff_present_and_stored_witness:
  "\<not> complete_check sample_settings [''/chunks/a'', ''/chunks/b'']
       (success_chunks (chunk_row 1 ''success'' ''manifest-ab'' ''/chunks/a'' ''o1.mp4'')
          (world_of [chunk_row 1 ''success'' ''manifest-ab'' ''/chunks/a'' ''o1.mp4'',
                     chunk_row 2 ''success'' ''manifest-ab'' ''/chunks/b'' '''']))
   \<and> encoding_file_save sample_env sample_settings
        (chunk_row 1 ''success'' ''manifest-ab'' ''/chunks/a'' ''o1.mp4'')
        (world_of [chunk_row 1 ''success'' ''manifest-ab'' ''/chunks/a'' ''o1.mp4'',
                   chunk_row 2 ''success'' ''manifest-ab'' ''/chunks/b'' ''''])
      = Inr (None, world_of [chunk_row 1 ''success'' ''manifest-ab'' ''/chunks/a'' ''o1.mp4'',
                              chunk_row 2 ''success'' ''manifest-ab'' ''/chunks/b'' ''''])"
proof -
  let ?i = "chunk_row 1 ''success'' ''manifest-ab'' ''/chunks/a'' ''o1.mp4''"
  let ?w = "world_of [chunk_row 1 ''success'' ''manifest-ab'' ''/chunks/a'' ''o1.mp4'',
                      chunk_row 2 ''success'' ''manifest-ab'' ''/chunks/b'' '''']"
  note inst = complete_iff_present_and_stored
    [of sample_settings "[''/chunks/a'', ''/chunks/b'']" ?i ?w sample_env]
  have nofile: "\<not> (\<forall>e \<in> set (encodings ?w).
         media e = media ?i \<and> profile_id (profile e) = profile_id (profile ?i)
         \<and> chunks_info e = chunks_info ?i \<and> chunk e \<longrightarrow> media_file e \<noteq> '''')"
    by (simp add: world_of_def chunk_row_def new_encoding_def)
  from inst nofile
  have a: "\<not> complete_check sample_settings [''/chunks/a'', ''/chunks/b''] (success_chunks ?i ?w)"
    by blast
  have pre: "chunk ?i \<and> status ?i = ''success'' \<and> media_file ?i \<noteq> ''''
      \<and> json_keys sample_env (chunks_info ?i) = Some [''/chunks/a'', ''/chunks/b'']"
    by (simp add: chunk_row_def new_encoding_def sample_env_def)
  from inst pre a have "encoding_file_save sample_env sample_settings ?i ?w = Inr (None, ?w)"
    by blast
  with a show ?thesis by simp
qed

text \<open>
  The claim as stated asks for each expected chunk file exactly once. Here the one expected
  chunk file is carried by two sibling rows, and the check passes.
\<close>

theorem complete_with_duplicate_counterexample:
  "complete_check sample_settings [''/chunks/a'']
       (success_chunks (chunk_row 1 ''success'' ''manifest-a'' ''/chunks/a'' ''o1.mp4'')
          (world_of [chunk_row 1 ''success'' ''manifest-a'' ''/chunks/a'' ''o1.mp4'',
                     chunk_row 2 ''success'' ''manifest-a'' ''/chunks/a'' ''o2.mp4'']))
   \<and> length (filter (\<lambda>e. chunk_file_path e = ''/chunks/a'')
       (success_chunks (chunk_row 1 ''success'' ''manifest-a'' ''/chunks/a'' ''o1.mp4'')
          (world_of [chunk_row 1 ''success'' ''manifest-a'' ''/chunks/a'' ''o1.mp4'',
                     chunk_row 2 ''success'' ''manifest-a'' ''/chunks/a'' ''o2.mp4'']))) = 2"
  by (simp add: complete_check_def success_chunks_def world_of_def chunk_row_def new_encoding_def
      file_path_def storage_path_not_empty mp4_720_def)

text \<open>
  C10. A chunk job saved as success with an output file whose manifest does not parse is
  deleted, and the handler returns \<open>False\<close> at once: the table loses that row and gains
  none, the only effect is the removal of the chunk's output file, so no completeness
  check, no concatenation and no synthesized job follow.
\<close>

theorem unparsable_manifest_deletes_chunk:
  assumes "chunk instance" and "status instance = ''success''" and "media_file instance \<noteq> ''''"
    and "json_keys ev (chunks_info instance) = None"
  shows "encoding_file_save ev st instance w =
     Inr (Some False,
          w\<lparr>encodings := filter (\<lambda>r. encoding_id r \<noteq> encoding_id instance) (encodings w),
            events := events w @ [Rm_file (storage_path st (media_file instance))]\<rparr>)"
  using assms
  by (simp add: encoding_file_save_def delete_rows_def encoding_file_delete_def file_path_def
      log_event_def)

theorem unparsable_manifest_deletes_chunk_witness:
  "encoding_file_save sample_env sample_settings
       (chunk_row 2 ''success'' ''not json'' ''/chunks/a'' ''o2.mp4'')
       (world_of [chunk_row 1 ''success'' ''not json'' ''/chunks/b'' ''o1.mp4'',
                  chunk_row 2 ''success'' ''not json'' ''/chunks/a'' ''o2.mp4''])
     = Inr (Some False,
            \<lparr>encodings = [chunk_row 1 ''success'' ''not json'' ''/chunks/b'' ''o1.mp4''],
             medias = [sample_media],
             next_id = 100, now = 9000000, events = [Rm_file ''/media/o2.mp4''], queue = []\<rparr>)"
proof -
  let ?i = "chunk_row 2 ''success'' ''not json'' ''/chunks/a'' ''o2.mp4''"
  have "chunk ?i" and "status ?i = ''success''" and "media_file ?i \<noteq> ''''"
    and "json_keys sample_env (chunks_info ?i) = None"
    by (simp_all add: chunk_row_def new_encoding_def sample_env_def)
  from unparsable_manifest_deletes_chunk [OF this, of sample_settings
      "world_of [chunk_row 1 ''success'' ''not json'' ''/chunks/b'' ''o1.mp4'', ?i]"]
  show ?thesis
    by (simp add: world_of_def chunk_row_def new_encoding_def sample_settings_def storage_path_def)
qed

text \<open>
  When the steps of the handlers return: the media of the job is in the table, and the
  path of a gif job is read only where the job has a file.
\<close>

lemma get_media_found:
  "m \<in> set (map media_id (medias w)) \<Longrightarrow> \<exists>row. get_media w m = Some row"
  by (cases "get_media w m") (auto simp: get_media_def find_None_iff)

lemma post_encode_actions_returns:
  assumes "media e \<in> set (map media_id (medias w))"
    and "extension (profile e) \<noteq> ''gif'' \<or> a = ''delete'' \<or> media_file e \<noteq> ''''"
  shows "\<exists>w'. post_encode_actions st e a w = Inr w'"
proof -
  from get_media_found [OF assms(1)] obtain row where "get_media w (media e) = Some row" ..
  with assms(2) show ?thesis
    by (auto simp: post_encode_actions_def Let_def file_path_def)
qed

lemma encoding_file_delete_returns:
  assumes "media e \<in> set (map media_id (medias w))"
  shows "\<exists>w'. encoding_file_delete st e w = Inr w'"
proof (cases "file_path st (media_file e)")
  case (Inl a)
  then show ?thesis by (simp add: encoding_file_delete_def)
next
  case (Inr p)
  from assms have "media e \<in> set (map media_id (medias (log_event (Rm_file p) w)))"
    by simp
  from post_encode_actions_returns [OF this, of "''delete''" st] Inr
  show ?thesis by (auto simp: encoding_file_delete_def Let_def)
qed

lemma send_post_delete_returns:
  assumes "\<forall>r \<in> set rs. media r \<in> set (map media_id (medias w))"
  shows "\<exists>w'. send_post_delete st rs w = Inr w'"
  using assms
proof (induction rs arbitrary: w)
  case Nil
  then show ?case by simp
next
  case (Cons r rs)
  from Cons.prems have "media r \<in> set (map media_id (medias w))" by simp
  from encoding_file_delete_returns [OF this, of st]
  obtain w1 where w1: "encoding_file_delete st r w = Inr w1" ..
  with encoding_file_delete_keeps [of st r w]
  have "map media_id (medias w1) = map media_id (medias w)" by simp
  with Cons.prems have "\<forall>r \<in> set rs. media r \<in> set (map media_id (medias w1))" by simp
  from Cons.IH [OF this] w1 show ?case by simp
qed

lemma delete_rows_returns:
  assumes "\<forall>r \<in> set who. media r \<in> set (map media_id (medias w))"
  shows "\<exists>w'. delete_rows st who w = Inr w'"
proof -
  from assms have "\<forall>r \<in> set (rev (sort_key encoding_id who)).
      media r \<in> set (map media_id
        (medias (w\<lparr>encodings := filter (\<lambda>r. encoding_id r \<notin> set (map encoding_id who)) (encodings w)\<rparr>)))"
    by simp
  from send_post_delete_returns [OF this] show ?thesis
    by (simp add: delete_rows_def)
qed

lemma final_validation_returns:
  assumes "media encoding \<in> set (map media_id (medias w))"
  shows "\<exists>w'. final_validation st orig_chunks instance encoding w = Inr w'"
proof -
  from assms have a: "\<forall>r \<in> set (filter (\<lambda>e. media e = media encoding
      \<and> profile_id (profile e) = profile_id (profile encoding)
      \<and> encoding_id e \<noteq> encoding_id encoding) (encodings w)).
      media r \<in> set (map media_id (medias w))"
    by simp
  from assms have b: "\<forall>r \<in> set [encoding]. media r \<in> set (map media_id (medias w))"
    by simp
  from delete_rows_returns [OF a, of st] delete_rows_returns [OF b, of st]
  show ?thesis by (simp add: final_validation_def)
qed

lemma chunks_paths_of_stored:
  "\<forall>e \<in> set chunks. media_file e \<noteq> '''' \<Longrightarrow>
   chunks_paths_of st chunks = Inr (map (\<lambda>e. storage_path st (media_file e)) chunks)"
  by (induction chunks) (simp_all add: file_path_def)

lemma cleanup_chunk_files_keeps [simp]:
  "encodings (cleanup_chunk_files cs instance w) = encodings w"
  "medias (cleanup_chunk_files cs instance w) = medias w"
proof -
  have "encodings (fold (\<lambda>c. log_event (Rm_file c)) cs v) = encodings v
      \<and> medias (fold (\<lambda>c. log_event (Rm_file c)) cs v) = medias v" for v
    by (induction cs arbitrary: v) simp_all
  then show "encodings (cleanup_chunk_files cs instance w) = encodings w"
    and "medias (cleanup_chunk_files cs instance w) = medias w"
    by (simp_all add: cleanup_chunk_files_def)
qed

text \<open>
  Saving a finished job that is not a gif job, of a media that is in the table: the row is
  appended under the next key and nothing raises.
\<close>

lemma save_new_returns:
  assumes "media e \<in> set (map media_id (medias w))" and "extension (profile e) \<noteq> ''gif''"
  shows "\<exists>w'. save_new st e w =
            Inr (e\<lparr>encoding_id := next_id w, add_date := now w, update_date := now w\<rparr>, w')
      \<and> encodings w' = encodings w
           @ [e\<lparr>encoding_id := next_id w, add_date := now w, update_date := now w\<rparr>]
      \<and> map media_id (medias w') = map media_id (medias w)"
proof -
  let ?e = "e\<lparr>encoding_id := next_id w, add_date := now w, update_date := now w\<rparr>"
  let ?w = "w\<lparr>encodings := encodings w @ [?e], next_id := Suc (next_id w)\<rparr>"
  show ?thesis
  proof (cases "status e \<in> {''fail'', ''success''}")
    case False
    then show ?thesis by (simp add: save_new_def Let_def post_save_other_def)
  next
    case True
    from assms have "media ?e \<in> set (map media_id (medias ?w))"
      and "extension (profile ?e) \<noteq> ''gif'' \<or> ''add'' = ''delete'' \<or> media_file ?e \<noteq> ''''"
      by simp_all
    from post_encode_actions_returns [OF this, of st]
    obtain w' where w': "post_encode_actions st ?e ''add'' ?w = Inr w'" ..
    with post_encode_actions_keeps [of st ?e "''add''" ?w]
    have "encodings w' = encodings w @ [?e]"
      and "map media_id (medias w') = map media_id (medias w)"
      by simp_all
    with True w' show ?thesis by (simp add: save_new_def Let_def post_save_other_def)
  qed
qed

lemma media_file_save_returns:
  assumes "media e \<in> set (map media_id (medias w))" and "extension (profile e) \<noteq> ''gif''"
    and "encodings w = rows @ [e]" and "\<forall>r \<in> set rows. encoding_id r \<noteq> encoding_id e"
  shows "\<exists>w'. media_file_save ev st e w =
            Inr (e\<lparr>media_file := upload_name ev e, update_date := now w\<rparr>, w')
      \<and> encodings w' = rows @ [e\<lparr>media_file := upload_name ev e, update_date := now w\<rparr>]
      \<and> map media_id (medias w') = map media_id (medias w)"
proof -
  let ?e = "e\<lparr>media_file := upload_name ev e, update_date := now w\<rparr>"
  from assms(3,4) have rows: "(if encoding_id ?e \<in> encoding_id ` set (encodings w)
       then map (\<lambda>r. if encoding_id r = encoding_id ?e then ?e else r) (encodings w)
       else encodings w @ [?e]) = rows @ [?e]"
    by (auto simp: map_idI)
  let ?w = "w\<lparr>encodings := rows @ [?e]\<rparr>"
  have "\<exists>w'. post_save_other st ?e ?w = Inr w' \<and> encodings w' = rows @ [?e]
      \<and> map media_id (medias w') = map media_id (medias w)"
  proof (cases "status e \<in> {''fail'', ''success''}")
    case False
    then show ?thesis by (simp add: post_save_other_def)
  next
    case True
    from assms(1,2) have "media ?e \<in> set (map media_id (medias ?w))"
      and "extension (profile ?e) \<noteq> ''gif'' \<or> ''add'' = ''delete'' \<or> media_file ?e \<noteq> ''''"
      by simp_all
    from post_encode_actions_returns [OF this, of st]
    obtain w' where w': "post_encode_actions st ?e ''add'' ?w = Inr w'" ..
    with post_encode_actions_keeps [of st ?e "''add''" ?w]
    have "encodings w' = rows @ [?e]" and "map media_id (medias w') = map media_id (medias w)"
      by simp_all
    with True w' show ?thesis by (simp add: post_save_other_def)
  qed
  then obtain w' where "post_save_other st ?e ?w = Inr w'" and "encodings w' = rows @ [?e]"
    and "map media_id (medias w') = map media_id (medias w)"
    by blast
  then show ?thesis
    unfolding media_file_save_def Let_def rows by simp
qed

lemma filter_same_key:
  "distinct (map f xs) \<Longrightarrow> x \<in> set xs \<Longrightarrow> filter (\<lambda>e. f e = f x) xs = [x]"
proof (induction xs)
  case Nil
  then show ?case by simp
next
  case (Cons a xs)
  show ?case
  proof (cases "a = x")
    case True
    with Cons.prems have "\<forall>e \<in> set xs. f e \<noteq> f x" by (auto simp: image_iff)
    then have "filter (\<lambda>e. f e = f x) xs = []" by (simp add: filter_empty_conv)
    with True show ?thesis by simp
  next
    case False
    with Cons.prems have "x \<in> set xs" and "f a \<noteq> f x" by auto
    with Cons show ?thesis by simp
  qed
qed

lemma key_in_filtered:
  assumes "distinct (map f xs)" and "r \<in> set xs"
  shows "f r \<in> set (map f (filter P xs)) \<longleftrightarrow> P r"
proof
  assume "f r \<in> set (map f (filter P xs))"
  then obtain e where e: "e \<in> set xs" "P e" "f e = f r" by auto
  from assms(1) e(1) assms(2) e(3) have "e = r"
    by (meson distinct_map inj_onD)
  with e show "P r" by simp
next
  assume "P r"
  with assms(2) show "f r \<in> set (map f (filter P xs))" by auto
qed

text \<open>
  C1 (amended). The final validation counts the rows of the media and profile that carry
  the manifest, on the table as it stands after the assembly. If the count equals the
  number of expected chunk files, every other row of that media and profile leaves the
  table, chunk rows and jobs of any status alike, and the new job is the one row of the
  pair that is left; if the count differs, the new job is deleted and no other row. No
  other row is deleted unless the recount matches. With the media of the new job in the
  table the validation raises nothing.
\<close>

theorem final_validation_recount:
  assumes "distinct (map encoding_id (encodings w))" and "encoding \<in> set (encodings w)"
  shows "(length orig_chunks =
            length (filter (\<lambda>e. media e = media instance
                              \<and> profile_id (profile e) = profile_id (profile instance)
                              \<and> chunks_info e = chunks_info instance) (encodings w)) \<longrightarrow>
          encodings (state_after (final_validation st orig_chunks instance encoding w)) =
            filter (\<lambda>e. \<not> (media e = media encoding
                            \<and> profile_id (profile e) = profile_id (profile encoding))
                        \<or> encoding_id e = encoding_id encoding) (encodings w)
          \<and> filter (\<lambda>e. media e = media encoding
                        \<and> profile_id (profile e) = profile_id (profile encoding))
              (encodings (state_after (final_validation st orig_chunks instance encoding w))) = [encoding])
       \<and> (length orig_chunks \<noteq>
            length (filter (\<lambda>e. media e = media instance
                              \<and> profile_id (profile e) = profile_id (profile instance)
                              \<and> chunks_info e = chunks_info instance) (encodings w)) \<longrightarrow>
          encodings (state_after (final_validation st orig_chunks instance encoding w)) =
            filter (\<lambda>e. encoding_id e \<noteq> encoding_id encoding) (encodings w))
       \<and> (media encoding \<in> set (map media_id (medias w)) \<longrightarrow>
          (\<exists>w'. final_validation st orig_chunks instance encoding w = Inr w'))"
proof (intro conjI impI)
  let ?pair = "\<lambda>e. media e = media encoding \<and> profile_id (profile e) = profile_id (profile encoding)"
  let ?who = "filter (\<lambda>e. ?pair e \<and> encoding_id e \<noteq> encoding_id encoding) (encodings w)"
  assume eq: "length orig_chunks =
            length (filter (\<lambda>e. media e = media instance
                              \<and> profile_id (profile e) = profile_id (profile instance)
                              \<and> chunks_info e = chunks_info instance) (encodings w))"
  have "filter (\<lambda>r. encoding_id r \<notin> set (map encoding_id ?who)) (encodings w) =
        filter (\<lambda>e. \<not> ?pair e \<or> encoding_id e = encoding_id encoding) (encodings w)"
  proof (rule filter_cong [OF refl])
    fix r assume "r \<in> set (encodings w)"
    from key_in_filtered [OF assms(1) this, of "\<lambda>e. ?pair e \<and> encoding_id e \<noteq> encoding_id encoding"]
    show "(encoding_id r \<notin> set (map encoding_id ?who)) =
          (\<not> ?pair r \<or> encoding_id r = encoding_id encoding)"
      by auto
  qed
  with eq show rows: "encodings (state_after (final_validation st orig_chunks instance encoding w)) =
      filter (\<lambda>e. \<not> ?pair e \<or> encoding_id e = encoding_id encoding) (encodings w)"
    by (simp add: final_validation_def delete_rows_encodings conj_assoc)
  have "filter ?pair (filter (\<lambda>e. \<not> ?pair e \<or> encoding_id e = encoding_id encoding) (encodings w))
        = filter ?pair (filter (\<lambda>e. encoding_id e = encoding_id encoding) (encodings w))"
    by (simp add: conj_commute conj_disj_distribL cong: conj_cong) 
  also have "\<dots> = [encoding]"
    using filter_same_key [OF assms] by simp
  finally show "filter ?pair (encodings (state_after (final_validation st orig_chunks instance encoding w))) = [encoding]"
    using rows by simp
next
  assume "length orig_chunks \<noteq>
            length (filter (\<lambda>e. media e = media instance
                              \<and> profile_id (profile e) = profile_id (profile instance)
                              \<and> chunks_info e = chunks_info instance) (encodings w))"
  then show "encodings (state_after (final_validation st orig_chunks instance encoding w)) =
            filter (\<lambda>e. encoding_id e \<noteq> encoding_id encoding) (encodings w)"
    by (simp add: final_validation_def delete_rows_encodings)
next
  assume "media encoding \<in> set (map media_id (medias w))"
  then show "\<exists>w'. final_validation st orig_chunks instance encoding w = Inr w'"
    by (rule final_validation_returns)
qed

text \<open>
  Both outcomes of the recount. With one expected chunk file and one row carrying the
  manifest, the chunk row and an older success of the pair are deleted and the new job
  stays, and nothing is raised; with two rows carrying that manifest the new job is
  deleted and the rest stays.
\<close>

theorem final_validation_recount_witness:
  "encodings (state_after (final_validation sample_settings [''/chunks/a'']
       (chunk_row 2 ''success'' ''manifest-a'' ''/chunks/a'' ''o2.mp4'')
       ((new_encoding 7 mp4_720)\<lparr>encoding_id := 9, status := ''success''\<rparr>)
       (world_of [(new_encoding 7 mp4_720)\<lparr>encoding_id := 1, status := ''success''\<rparr>,
                  chunk_row 2 ''success'' ''manifest-a'' ''/chunks/a'' ''o2.mp4'',
                  (new_encoding 7 mp4_720)\<lparr>encoding_id := 9, status := ''success''\<rparr>])))
     = [(new_encoding 7 mp4_720)\<lparr>encoding_id := 9, status := ''success''\<rparr>]
   \<and> encodings (state_after (final_validation sample_settings [''/chunks/a'']
       (chunk_row 2 ''success'' ''manifest-a'' ''/chunks/a'' ''o2.mp4'')
       ((new_encoding 7 mp4_720)\<lparr>encoding_id := 9, status := ''success''\<rparr>)
       (world_of [chunk_row 2 ''success'' ''manifest-a'' ''/chunks/a'' ''o2.mp4'',
                  chunk_row 3 ''success'' ''manifest-a'' ''/chunks/a'' ''o3.mp4'',
                  (new_encoding 7 mp4_720)\<lparr>encoding_id := 9, status := ''success''\<rparr>])))
     = [chunk_row 2 ''success'' ''manifest-a'' ''/chunks/a'' ''o2.mp4'',
        chunk_row 3 ''success'' ''manifest-a'' ''/chunks/a'' ''o3.mp4'']
   \<and> (\<exists>w'. final_validation sample_settings [''/chunks/a'']
       (chunk_row 2 ''success'' ''manifest-a'' ''/chunks/a'' ''o2.mp4'')
       ((new_encoding 7 mp4_720)\<lparr>encoding_id := 9, status := ''success''\<rparr>)
       (world_of [(new_encoding 7 mp4_720)\<lparr>encoding_id := 1, status := ''success''\<rparr>,
                  chunk_row 2 ''success'' ''manifest-a'' ''/chunks/a'' ''o2.mp4'',
                  (new_encoding 7 mp4_720)\<lparr>encoding_id := 9, status := ''success''\<rparr>]) = Inr w')"
proof -
  let ?i = "chunk_row 2 ''success'' ''manifest-a'' ''/chunks/a'' ''o2.mp4''"
  let ?j = "chunk_row 3 ''success'' ''manifest-a'' ''/chunks/a'' ''o3.mp4''"
  let ?old = "(new_encoding 7 mp4_720)\<lparr>encoding_id := 1, status := ''success''\<rparr>"
  let ?new = "(new_encoding 7 mp4_720)\<lparr>encoding_id := 9, status := ''success''\<rparr>"
  let ?w1 = "world_of [?old, ?i, ?new]"
  let ?w2 = "world_of [?i, ?j, ?new]"
  have d1: "distinct (map encoding_id (encodings ?w1))" and m1: "?new \<in> set (encodings ?w1)"
    by (simp_all add: world_of_def chunk_row_def new_encoding_def)
  have d2: "distinct (map encoding_id (encodings ?w2))" and m2: "?new \<in> set (encodings ?w2)"
    by (simp_all add: world_of_def chunk_row_def new_encoding_def)
  have c1: "length [''/chunks/a''] =
      length (filter (\<lambda>e. media e = media ?i \<and> profile_id (profile e) = profile_id (profile ?i)
                        \<and> chunks_info e = chunks_info ?i) (encodings ?w1))"
    by (simp add: world_of_def chunk_row_def new_encoding_def)
  have c2: "length [''/chunks/a''] \<noteq>
      length (filter (\<lambda>e. media e = media ?i \<and> profile_id (profile e) = profile_id (profile ?i)
                        \<and> chunks_info e = chunks_info ?i) (encodings ?w2))"
    by (simp add: world_of_def chunk_row_def new_encoding_def)
  from final_validation_recount [OF d1 m1, of "[''/chunks/a'']" ?i sample_settings] c1
  have "encodings (state_after (final_validation sample_settings [''/chunks/a''] ?i ?new ?w1)) =
      filter (\<lambda>e. \<not> (media e = media ?new \<and> profile_id (profile e) = profile_id (profile ?new))
                 \<or> encoding_id e = encoding_id ?new) (encodings ?w1)"
    by blast
  then have r1: "encodings (state_after (final_validation sample_settings [''/chunks/a''] ?i ?new ?w1)) = [?new]"
    by (simp add: world_of_def chunk_row_def new_encoding_def)
  from final_validation_recount [OF d2 m2, of "[''/chunks/a'']" ?i sample_settings] c2
  have "encodings (state_after (final_validation sample_settings [''/chunks/a''] ?i ?new ?w2)) =
      filter (\<lambda>e. encoding_id e \<noteq> encoding_id ?new) (encodings ?w2)"
    by blast
  then have r2: "encodings (state_after (final_validation sample_settings [''/chunks/a''] ?i ?new ?w2)) = [?i, ?j]"
    by (simp add: world_of_def chunk_row_def new_encoding_def)
  have "media ?new \<in> set (map media_id (medias ?w1))"
    by (simp add: world_of_def new_encoding_def sample_media_def)
  with final_validation_recount [OF d1 m1, of "[''/chunks/a'']" ?i sample_settings]
  have r3: "\<exists>w'. final_validation sample_settings [''/chunks/a''] ?i ?new ?w1 = Inr w'"
    by blast
  from r1 r2 r3 show ?thesis by blast
qed

text \<open>
  The claim as stated has the coordinator delete only the other non-chunk success jobs.
  Here the last chunk of a one-chunk set completes while a non-chunk job of the same
  media and profile is still running: after the handler the running job and the chunk
  row are gone, and the new success job is the only row.
\<close>

theorem coordinator_deletes_running_job_counterexample:
  "encoding_file_save sample_env sample_settings
       (chunk_row 2 ''success'' ''manifest-a'' ''/chunks/a'' ''o2.mp4'')
       (world_of [(new_encoding 7 mp4_720)\<lparr>encoding_id := 1, status := ''running''\<rparr>,
                  chunk_row 2 ''success'' ''manifest-a'' ''/chunks/a'' ''o2.mp4''])
   = Inr (None,
       \<lparr>encodings =
          [(new_encoding 7 mp4_720)\<lparr>encoding_id := 100, status := ''success'', progress := 100,
             logs := ''/media/o2.mp4'' @ nl @ ''ok'' @ nl, worker := ''workers'',
             media_file := ''encoded/out.mp4'', add_date := 9000000, update_date := 9000000,
             total_run_time := 5\<rparr>],
        medias = [sample_media\<lparr>encoding_status := ''success''\<rparr>],
        next_id = 101, now = 9000000,
        events = [Run_concat [''/media/o2.mp4''], Create_hls ''tok'', Create_hls ''tok'',
                  Rm_file ''/media/o2.mp4'', Rm_file ''/chunks/a'', Create_hls ''tok''],
        queue = []\<rparr>)"
  by code_simp

text \<open>
  What the success branch does for a complete set, for a job that is not a gif job and
  whose media is in the table: nothing raises, one success job that is not a chunk is
  saved under the next key, and the table the handler leaves is the one the final
  validation leaves.
\<close>

lemma complete_set_is_assembled:
  assumes "chunk instance" and "status instance = ''success''" and "media_file instance \<noteq> ''''"
    and "json_keys ev (chunks_info instance) = Some orig_chunks"
    and "complete_check st orig_chunks (success_chunks instance w)"
    and "instance \<in> set (encodings w)"
    and "\<forall>r \<in> set (encodings w). encoding_id r \<noteq> next_id w"
    and "media instance \<in> set (map media_id (medias w))"
    and "extension (profile instance) \<noteq> ''gif''"
  shows "\<exists>enc w3 w'. encoding_file_save ev st instance w = Inr (None, w')
      \<and> encodings w' = encodings (state_after (final_validation st orig_chunks instance enc w3))
      \<and> encodings w3 = encodings w @ [enc]
      \<and> encoding_id enc = next_id w \<and> status enc = ''success'' \<and> \<not> chunk enc
      \<and> media enc = media instance \<and> profile enc = profile instance"
proof -
  let ?chunks = "success_chunks instance w"
  let ?paths = "map (\<lambda>e. storage_path st (media_file e)) ?chunks"
  let ?e0 = "(new_encoding (media instance) (profile instance))
         \<lparr>status := ''success'', progress := 100,
          logs := repr_list ev ?paths @ nl @ run_concat ev ?paths @ nl
                  @ join nl (map logs ?chunks),
          worker := dumps_workers ev (set (map worker ?chunks)),
          total_run_time := timedelta_seconds
             (Max (set (map update_date ?chunks)) - Min (set (map add_date ?chunks)))\<rparr>"
  let ?w1 = "log_event (Run_concat ?paths) w"
  let ?e1 = "?e0\<lparr>encoding_id := next_id ?w1, add_date := now ?w1, update_date := now ?w1\<rparr>"
  from assms(5) have "\<forall>e \<in> set ?chunks. media_file e \<noteq> ''''"
    by (simp add: complete_check_def all_have_files_iff)
  then have paths: "chunks_paths_of st ?chunks = Inr ?paths"
    by (rule chunks_paths_of_stored)
  from assms(1,6) have "instance \<in> set ?chunks"
    by (simp add: success_chunks_def)
  then have ne: "?chunks \<noteq> []" by auto
  have m0: "media ?e0 \<in> set (map media_id (medias ?w1))"
    and g0: "extension (profile ?e0) \<noteq> ''gif''"
    using assms(8,9) by (simp_all add: new_encoding_def)
  from save_new_returns [OF m0 g0, of st]
  obtain w2 where s1: "save_new st ?e0 ?w1 = Inr (?e1, w2)"
    and r2: "encodings w2 = encodings ?w1 @ [?e1]"
    and i2: "map media_id (medias w2) = map media_id (medias ?w1)"
    by blast
  let ?e2 = "?e1\<lparr>media_file := upload_name ev ?e1, update_date := now w2\<rparr>"
  have m1: "media ?e1 \<in> set (map media_id (medias w2))"
    and g1: "extension (profile ?e1) \<noteq> ''gif''"
    using assms(8,9) i2 by (simp_all add: new_encoding_def)
  have f1: "\<forall>r \<in> set (encodings ?w1). encoding_id r \<noteq> encoding_id ?e1"
    using assms(7) by (simp add: log_event_def)
  from media_file_save_returns [OF m1 g1 r2 f1, of ev st]
  obtain w3 where s2: "media_file_save ev st ?e1 w2 = Inr (?e2, w3)"
    and r3: "encodings w3 = encodings ?w1 @ [?e2]"
    and i3: "map media_id (medias w3) = map media_id (medias w2)"
    by blast
  have m2: "media ?e2 \<in> set (map media_id (medias w3))"
    using assms(8) i2 i3 by (simp add: new_encoding_def)
  from final_validation_returns [OF m2, of st orig_chunks "instance"]
  obtain w4 where s3: "final_validation st orig_chunks instance ?e2 w3 = Inr w4" ..
  have i4: "map media_id (medias w4) = map media_id (medias w3)"
  proof -
    have "map media_id (medias (state_after (final_validation st orig_chunks instance ?e2 w3)))
        = map media_id (medias w3)"
      by (simp add: final_validation_def delete_rows_medias)
    with s3 show ?thesis by simp
  qed
  have m4: "media instance \<in> set (map media_id (medias (cleanup_chunk_files orig_chunks instance w4)))"
    and g4: "extension (profile instance) \<noteq> ''gif'' \<or> ''add'' = ''delete''
        \<or> media_file instance \<noteq> ''''"
    using assms(8,9) i2 i3 i4 by simp_all
  from post_encode_actions_returns [OF m4 g4, of st]
  obtain w5 where s4: "post_encode_actions st instance ''add''
      (cleanup_chunk_files orig_chunks instance w4) = Inr w5" ..
  with post_encode_actions_keeps [of st "instance" "''add''" "cleanup_chunk_files orig_chunks instance w4"]
  have r5: "encodings w5 = encodings w4" by simp
  from assms(1-5) paths ne s1 s2 s3 s4
  have run: "encoding_file_save ev st instance w = Inr (None, w5)"
    by (simp add: encoding_file_save_def concat_chunks_def Let_def)
  have props: "encoding_id ?e2 = next_id w \<and> status ?e2 = ''success'' \<and> \<not> chunk ?e2
      \<and> media ?e2 = media instance \<and> profile ?e2 = profile instance"
    by (simp add: new_encoding_def log_event_def)
  have "encodings w5 = encodings (state_after (final_validation st orig_chunks instance ?e2 w3))"
    using r5 s3 by simp
  moreover have "encodings w3 = encodings w @ [?e2]" using r3 by simp
  ultimately show ?thesis using run props by blast
qed

lemma chunks_paths_of_missing:
  "\<exists>e \<in> set chunks. media_file e = '''' \<Longrightarrow> chunks_paths_of st chunks = Inl ValueError"
proof (induction chunks)
  case Nil
  then show ?case by simp
next
  case (Cons a chunks)
  show ?case
  proof (cases "media_file a = []")
    case True
    then show ?thesis by (simp add: file_path_def)
  next
    case False
    with Cons.prems have "\<exists>e \<in> set chunks. media_file e = []" by auto
    then have "chunks_paths_of st chunks = Inl ValueError" by (rule Cons.IH)
    with False show ?thesis by (simp add: file_path_def)
  qed
qed

text \<open>
  What the fail branch does for any failed chunk row that has no output file: the list of
  sibling paths raises before the fail job is saved, so nothing is written or deleted.
\<close>

lemma chunk_failed_without_file:
  assumes "chunk instance" and "status instance = ''fail''" and "media_file instance = ''''"
    and "instance \<in> set (encodings w)"
  shows "encoding_file_save ev st instance w = Inl (ValueError, w)"
proof -
  from assms have "\<exists>e \<in> set (fail_chunks instance w). media_file e = ''''"
    by (auto simp: fail_chunks_def)
  then have "chunks_paths_of st (fail_chunks instance w) = Inl ValueError"
    by (rule chunks_paths_of_missing)
  with assms show ?thesis
    by (simp add: encoding_file_save_def chunk_failed_def Let_def)
qed

text \<open>
  What the fail branch does when every sibling chunk has an output file, for a job that
  is not a gif job and whose media is in the table: one fail job that is not a chunk is
  written, with the elapsed seconds between the first creation and the last update of the
  siblings, and it is the only row left for the media and profile.
\<close>

lemma chunk_failed_with_files:
  assumes "chunk instance" and "status instance = ''fail''"
    and "instance \<in> set (encodings w)"
    and "\<forall>e \<in> set (fail_chunks instance w). media_file e \<noteq> ''''"
    and "\<forall>r \<in> set (encodings w). encoding_id r \<noteq> next_id w"
    and "distinct (map encoding_id (encodings w))"
    and "media instance \<in> set (map media_id (medias w))"
    and "extension (profile instance) \<noteq> ''gif''"
  shows "\<exists>enc w'. encoding_file_save ev st instance w = Inr (None, w')
      \<and> filter (\<lambda>e. media e = media instance
                    \<and> profile_id (profile e) = profile_id (profile instance)) (encodings w') = [enc]
      \<and> status enc = ''fail'' \<and> \<not> chunk enc
      \<and> total_run_time enc =
          timedelta_seconds (Max (set (map update_date (fail_chunks instance w)))
                             - Min (set (map add_date (fail_chunks instance w))))"
proof -
  let ?chunks = "fail_chunks instance w"
  let ?paths = "map (\<lambda>e. storage_path st (media_file e)) ?chunks"
  let ?pair = "\<lambda>e. media e = media instance \<and> profile_id (profile e) = profile_id (profile instance)"
  let ?e0 = "(new_encoding (media instance) (profile instance))
      \<lparr>status := ''fail'', progress := 100,
       logs := repr_list ev ?paths @ nl @ join nl (map logs ?chunks),
       worker := dumps_workers ev (set (map worker ?chunks)),
       total_run_time := timedelta_seconds
          (Max (set (map update_date ?chunks)) - Min (set (map add_date ?chunks)))\<rparr>"
  let ?enc = "?e0\<lparr>encoding_id := next_id w, add_date := now w, update_date := now w\<rparr>"
  from assms(4) have paths: "chunks_paths_of st ?chunks = Inr ?paths"
    by (rule chunks_paths_of_stored)
  from assms(1,3) have "instance \<in> set ?chunks"
    by (simp add: fail_chunks_def)
  then have ne: "?chunks \<noteq> []" by auto
  have m0: "media ?e0 \<in> set (map media_id (medias w))"
    and g0: "extension (profile ?e0) \<noteq> ''gif''"
    using assms(7,8) by (simp_all add: new_encoding_def)
  from save_new_returns [OF m0 g0, of st]
  obtain w1 where sv: "save_new st ?e0 w = Inr (?enc, w1)"
    and r1: "encodings w1 = encodings w @ [?enc]"
    and i1: "map media_id (medias w1) = map media_id (medias w)"
    by blast
  let ?who = "filter (\<lambda>e. media e = media ?enc \<and> profile_id (profile e) = profile_id (profile ?enc)
      \<and> encoding_id e \<noteq> encoding_id ?enc) (encodings w1)"
  have "\<forall>r \<in> set ?who. media r \<in> set (map media_id (medias w1))"
    using assms(7) i1 by (simp add: new_encoding_def)
  from delete_rows_returns [OF this, of st]
  obtain w2 where dl: "delete_rows st ?who w1 = Inr w2" ..
  have run: "encoding_file_save ev st instance w = Inr (None, w2)"
    using assms(1,2) paths ne sv dl
    by (simp add: encoding_file_save_def chunk_failed_def Let_def)
  have d: "distinct (map encoding_id (encodings w1))"
    using assms(5,6) r1 by (auto simp: new_encoding_def)
  have m: "?enc \<in> set (encodings w1)" using r1 by simp
  have pe: "?pair ?enc" by (simp add: new_encoding_def)
  have who: "?who = filter (\<lambda>e. ?pair e \<and> encoding_id e \<noteq> next_id w) (encodings w1)"
    by (simp add: new_encoding_def)
  have "encodings w2 = encodings (state_after (delete_rows st ?who w1))"
    using dl by simp
  also have "\<dots> = filter (\<lambda>r. encoding_id r \<notin> set (map encoding_id ?who)) (encodings w1)"
    by (rule delete_rows_encodings)
  also have "\<dots> = filter (\<lambda>e. \<not> ?pair e \<or> encoding_id e = next_id w) (encodings w1)"
    unfolding who
  proof (rule filter_cong [OF refl])
    fix r assume "r \<in> set (encodings w1)"
    from key_in_filtered [OF d this, of "\<lambda>e. ?pair e \<and> encoding_id e \<noteq> next_id w"]
    show "(encoding_id r \<notin> set (map encoding_id
              (filter (\<lambda>e. ?pair e \<and> encoding_id e \<noteq> next_id w) (encodings w1))))
        = (\<not> ?pair r \<or> encoding_id r = next_id w)"
      by auto
  qed
  finally have rows: "encodings w2 =
      filter (\<lambda>e. \<not> ?pair e \<or> encoding_id e = next_id w) (encodings w1)" .
  have "filter ?pair (encodings w2) =
      filter ?pair (filter (\<lambda>e. encoding_id e = encoding_id ?enc) (encodings w1))"
    unfolding rows by (auto simp: new_encoding_def intro: filter_cong)
  also have "\<dots> = filter ?pair [?enc]"
    using filter_same_key [OF d m] by simp
  also have "\<dots> = [?enc]" using pe by simp
  finally have one: "filter ?pair (encodings w2) = [?enc]" .
  have props: "status ?enc = ''fail'' \<and> \<not> chunk ?enc \<and> total_run_time ?enc =
      timedelta_seconds (Max (set (map update_date ?chunks)) - Min (set (map add_date ?chunks)))"
    by (simp add: new_encoding_def)
  from run one props show ?thesis by blast
qed

text \<open>
  C3, at a failing input. One chunk of media 7 and profile \<open>mp4_720\<close> is saved as failed
  with no output file while an older success job of the pair exists. The handler raises
  \<open>ValueError\<close> at \<open>f.media_file.path\<close>; no fail job is written and the success job stays.
\<close>

theorem chunk_fail_without_artifact_raises:
  "encoding_file_save sample_env sample_settings
       (chunk_row 2 ''fail'' ''manifest-a'' ''/chunks/a'' '''')
       (world_of [(new_encoding 7 mp4_720)\<lparr>encoding_id := 1, status := ''success'',
                     media_file := ''old.mp4''\<rparr>,
                  chunk_row 2 ''fail'' ''manifest-a'' ''/chunks/a'' ''''])
   = Inl (ValueError,
       world_of [(new_encoding 7 mp4_720)\<lparr>encoding_id := 1, status := ''success'',
                     media_file := ''old.mp4''\<rparr>,
                 chunk_row 2 ''fail'' ''manifest-a'' ''/chunks/a'' ''''])"
  by (simp add: encoding_file_save_def chunk_failed_def fail_chunks_def chunk_row_def
      world_of_def new_encoding_def file_path_def Let_def)

section \<open>Properties of the progress report\<close>

text \<open>
  C8, at a failing input. A running job whose row has left the table (the coordinator's
  final validation deletes such rows) reports 50 with commit: the value is an integer
  between 0 and 100, it is stored in the job object, and
  \<open>self.save(update_fields=["progress"])\<close> raises \<open>DatabaseError\<close> because the update
  affects no row. No success is reported.
\<close>

theorem set_progress_row_gone_counterexample:
  "set_progress sample_env sample_settings
       ((new_encoding 7 mp4_720)\<lparr>encoding_id := 5, status := ''running'', progress := 10\<rparr>)
       (Py_int 50) True
       (world_of [(new_encoding 7 mp4_720)\<lparr>encoding_id := 1, status := ''success'',
                     media_file := ''old.mp4''\<rparr>])
   = Inl (DatabaseError,
          (new_encoding 7 mp4_720)\<lparr>encoding_id := 5, status := ''running'', progress := 50\<rparr>,
          world_of [(new_encoding 7 mp4_720)\<lparr>encoding_id := 1, status := ''success'',
                       media_file := ''old.mp4''\<rparr>])"
  by (simp add: set_progress_def save_progress_def world_of_def new_encoding_def Let_def)

text \<open>
  C8 (amended). \<open>set_progress\<close> rejects every value that is not an integer between 0 and
  100: it returns \<open>False\<close>, raises nothing and leaves the job and the table as they were.
  For an integer between 0 and 100 it stores the value in the job object; without commit it
  returns \<open>True\<close> at once; with commit it returns \<open>True\<close> after writing the column to the
  row, for every saved job whose row is in the table and that is not finished (its status
  is neither \<open>success\<close> nor \<open>fail\<close>: a running job in particular), and nothing else
  changes. With commit, a job without a key raises \<open>ValueError\<close> and a job whose row is
  gone raises \<open>DatabaseError\<close>, the table left as it was. Whatever the input, the
  operation returns \<open>True\<close> only for an integer between 0 and 100, returns \<open>False\<close> only
  for another value, and raises only with commit and an integer between 0 and 100, the
  value then being stored in the job object.
\<close>

theorem set_progress_accepts_0_to_100:
  "(\<not> (isinstance_int p \<and> 0 \<le> int_value p \<and> int_value p \<le> 100) \<longrightarrow>
      set_progress ev st self p commit w = Inr (False, self, w))
   \<and> (isinstance_int p \<and> 0 \<le> int_value p \<and> int_value p \<le> 100 \<and> \<not> commit \<longrightarrow>
      set_progress ev st self p commit w = Inr (True, self\<lparr>progress := int_value p\<rparr>, w))
   \<and> (isinstance_int p \<and> 0 \<le> int_value p \<and> int_value p \<le> 100 \<and> commit
        \<and> encoding_id self \<noteq> 0 \<and> encoding_id self \<in> encoding_id ` set (encodings w)
        \<and> status self \<noteq> ''success'' \<and> status self \<noteq> ''fail'' \<longrightarrow>
      set_progress ev st self p commit w =
        Inr (True, self\<lparr>progress := int_value p\<rparr>,
             w\<lparr>encodings :=
                  map (\<lambda>r. if encoding_id r = encoding_id self
                            then r\<lparr>progress := int_value p\<rparr> else r) (encodings w)\<rparr>))
   \<and> (isinstance_int p \<and> 0 \<le> int_value p \<and> int_value p \<le> 100 \<and> commit
        \<and> (encoding_id self = 0 \<or> encoding_id self \<notin> encoding_id ` set (encodings w)) \<longrightarrow>
      set_progress ev st self p commit w =
        Inl (if encoding_id self = 0 then ValueError else DatabaseError,
             self\<lparr>progress := int_value p\<rparr>, w))
   \<and> (\<forall>b self' w'. set_progress ev st self p commit w = Inr (b, self', w') \<longrightarrow>
        b = (isinstance_int p \<and> 0 \<le> int_value p \<and> int_value p \<le> 100)
        \<and> self' = (if b then self\<lparr>progress := int_value p\<rparr> else self))
   \<and> (\<forall>e self' w'. set_progress ev st self p commit w = Inl (e, self', w') \<longrightarrow>
        isinstance_int p \<and> 0 \<le> int_value p \<and> int_value p \<le> 100 \<and> commit
        \<and> self' = self\<lparr>progress := int_value p\<rparr>)"
proof (intro conjI)
  show "\<not> (isinstance_int p \<and> 0 \<le> int_value p \<and> int_value p \<le> 100) \<longrightarrow>
      set_progress ev st self p commit w = Inr (False, self, w)"
    by (auto simp: set_progress_def)
next
  show "isinstance_int p \<and> 0 \<le> int_value p \<and> int_value p \<le> 100 \<and> \<not> commit \<longrightarrow>
      set_progress ev st self p commit w = Inr (True, self\<lparr>progress := int_value p\<rparr>, w)"
    by (simp add: set_progress_def)
next
  show "isinstance_int p \<and> 0 \<le> int_value p \<and> int_value p \<le> 100 \<and> commit
        \<and> encoding_id self \<noteq> 0 \<and> encoding_id self \<in> encoding_id ` set (encodings w)
        \<and> status self \<noteq> ''success'' \<and> status self \<noteq> ''fail'' \<longrightarrow>
      set_progress ev st self p commit w =
        Inr (True, self\<lparr>progress := int_value p\<rparr>,
             w\<lparr>encodings :=
                  map (\<lambda>r. if encoding_id r = encoding_id self
                            then r\<lparr>progress := int_value p\<rparr> else r) (encodings w)\<rparr>)"
  proof
    assume a: "isinstance_int p \<and> 0 \<le> int_value p \<and> int_value p \<le> 100 \<and> commit
        \<and> encoding_id self \<noteq> 0 \<and> encoding_id self \<in> encoding_id ` set (encodings w)
        \<and> status self \<noteq> ''success'' \<and> status self \<noteq> ''fail''"
    then have "save_progress ev st (self\<lparr>progress := int_value p\<rparr>) w =
        Inr (w\<lparr>encodings :=
                  map (\<lambda>r. if encoding_id r = encoding_id self
                            then r\<lparr>progress := int_value p\<rparr> else r) (encodings w)\<rparr>)"
      by (simp add: save_progress_def encoding_file_save_def post_save_other_def
          cong del: if_weak_cong)
    with a show "set_progress ev st self p commit w =
        Inr (True, self\<lparr>progress := int_value p\<rparr>,
             w\<lparr>encodings :=
                  map (\<lambda>r. if encoding_id r = encoding_id self
                            then r\<lparr>progress := int_value p\<rparr> else r) (encodings w)\<rparr>)"
      by (simp add: set_progress_def Let_def)
  qed
next
  show "isinstance_int p \<and> 0 \<le> int_value p \<and> int_value p \<le> 100 \<and> commit
        \<and> (encoding_id self = 0 \<or> encoding_id self \<notin> encoding_id ` set (encodings w)) \<longrightarrow>
      set_progress ev st self p commit w =
        Inl (if encoding_id self = 0 then ValueError else DatabaseError,
             self\<lparr>progress := int_value p\<rparr>, w)"
    by (simp add: set_progress_def save_progress_def Let_def)
next
  show "\<forall>b self' w'. set_progress ev st self p commit w = Inr (b, self', w') \<longrightarrow>
        b = (isinstance_int p \<and> 0 \<le> int_value p \<and> int_value p \<le> 100)
        \<and> self' = (if b then self\<lparr>progress := int_value p\<rparr> else self)"
    by (auto simp: set_progress_def Let_def split: if_splits sum.splits prod.splits)
next
  show "\<forall>e self' w'. set_progress ev st self p commit w = Inl (e, self', w') \<longrightarrow>
        isinstance_int p \<and> 0 \<le> int_value p \<and> int_value p \<le> 100 \<and> commit
        \<and> self' = self\<lparr>progress := int_value p\<rparr>"
    by (auto simp: set_progress_def Let_def split: if_splits sum.splits prod.splits)
qed

text \<open>
  A running job takes 50 with commit and the boolean \<open>True\<close> without; 101, the float 50.0
  and a string are refused, and the job keeps its progress. A job that was never saved
  raises \<open>ValueError\<close> on 50 with commit.
\<close>

theorem set_progress_accepts_0_to_100_witness:
  "set_progress sample_env sample_settings
       ((new_encoding 7 mp4_720)\<lparr>encoding_id := 1, status := ''running'', progress := 10\<rparr>)
       (Py_int 50) True
       (world_of [(new_encoding 7 mp4_720)\<lparr>encoding_id := 1, status := ''running'', progress := 10\<rparr>])
     = Inr (True,
            (new_encoding 7 mp4_720)\<lparr>encoding_id := 1, status := ''running'', progress := 50\<rparr>,
            world_of [(new_encoding 7 mp4_720)\<lparr>encoding_id := 1, status := ''running'', progress := 50\<rparr>])
   \<and> set_progress sample_env sample_settings
       ((new_encoding 7 mp4_720)\<lparr>encoding_id := 1, status := ''running'', progress := 10\<rparr>)
       (Py_bool True) False (world_of [])
     = Inr (True,
            (new_encoding 7 mp4_720)\<lparr>encoding_id := 1, status := ''running'', progress := 1\<rparr>,
            world_of [])
   \<and> set_progress sample_env sample_settings
       ((new_encoding 7 mp4_720)\<lparr>encoding_id := 1, status := ''running'', progress := 10\<rparr>)
       (Py_int 101) True (world_of [])
     = Inr (False,
            (new_encoding 7 mp4_720)\<lparr>encoding_id := 1, status := ''running'', progress := 10\<rparr>,
            world_of [])
   \<and> set_progress sample_env sample_settings
       ((new_encoding 7 mp4_720)\<lparr>encoding_id := 1, status := ''running'', progress := 10\<rparr>)
       (Py_float (Finite 50)) True (world_of [])
     = Inr (False,
            (new_encoding 7 mp4_720)\<lparr>encoding_id := 1, status := ''running'', progress := 10\<rparr>,
            world_of [])
   \<and> set_progress sample_env sample_settings
       ((new_encoding 7 mp4_720)\<lparr>encoding_id := 1, status := ''running'', progress := 10\<rparr>)
       (Py_str ''50'') True (world_of [])
     = Inr (False,
            (new_encoding 7 mp4_720)\<lparr>encoding_id := 1, status := ''running'', progress := 10\<rparr>,
            world_of [])
   \<and> set_progress sample_env sample_settings
       ((new_encoding 7 mp4_720)\<lparr>status := ''running'', progress := 10\<rparr>)
       (Py_int 50) True (world_of [])
     = Inl (ValueError,
            (new_encoding 7 mp4_720)\<lparr>status := ''running'', progress := 50\<rparr>,
            world_of [])"
proof -
  let ?e = "(new_encoding 7 mp4_720)\<lparr>encoding_id := 1, status := ''running'', progress := 10\<rparr>"
  let ?n = "(new_encoding 7 mp4_720)\<lparr>status := ''running'', progress := 10\<rparr>"
  note c4 = set_progress_accepts_0_to_100
    [THEN conjunct2, THEN conjunct2, THEN conjunct2, THEN conjunct1, THEN mp]
  note c3 = set_progress_accepts_0_to_100 [THEN conjunct2, THEN conjunct2, THEN conjunct1, THEN mp]
  note c2 = set_progress_accepts_0_to_100 [THEN conjunct2, THEN conjunct1, THEN mp]
  note c1 = set_progress_accepts_0_to_100 [THEN conjunct1, THEN mp]
  have "set_progress sample_env sample_settings ?e (Py_int 50) True (world_of [?e]) =
      Inr (True, ?e\<lparr>progress := int_value (Py_int 50)\<rparr>,
           (world_of [?e])\<lparr>encodings :=
                 map (\<lambda>r. if encoding_id r = encoding_id ?e
                           then r\<lparr>progress := int_value (Py_int 50)\<rparr> else r)
                   (encodings (world_of [?e]))\<rparr>)"
    by (rule c3) (simp add: new_encoding_def world_of_def)
  then have a: "set_progress sample_env sample_settings ?e (Py_int 50) True (world_of [?e]) =
      Inr (True, ?e\<lparr>progress := 50\<rparr>, world_of [?e\<lparr>progress := 50\<rparr>])"
    by (simp add: world_of_def new_encoding_def)
  have "set_progress sample_env sample_settings ?e (Py_bool True) False (world_of []) =
      Inr (True, ?e\<lparr>progress := int_value (Py_bool True)\<rparr>, world_of [])"
    by (rule c2) simp
  then have b: "set_progress sample_env sample_settings ?e (Py_bool True) False (world_of []) =
      Inr (True, ?e\<lparr>progress := 1\<rparr>, world_of [])"
    by simp
  have c: "set_progress sample_env sample_settings ?e (Py_int 101) True (world_of []) =
      Inr (False, ?e, world_of [])"
    by (rule c1) simp
  have d: "set_progress sample_env sample_settings ?e (Py_float (Finite 50)) True (world_of []) =
      Inr (False, ?e, world_of [])"
    by (rule c1) simp
  have s: "set_progress sample_env sample_settings ?e (Py_str ''50'') True (world_of []) =
      Inr (False, ?e, world_of [])"
    by (rule c1) simp
  have "set_progress sample_env sample_settings ?n (Py_int 50) True (world_of []) =
      Inl (if encoding_id ?n = 0 then ValueError else DatabaseError,
           ?n\<lparr>progress := int_value (Py_int 50)\<rparr>, world_of [])"
    by (rule c4) (simp add: new_encoding_def)
  then have n: "set_progress sample_env sample_settings ?n (Py_int 50) True (world_of []) =
      Inl (ValueError, ?n\<lparr>progress := 50\<rparr>, world_of [])"
    by (simp add: new_encoding_def)
  from a b c d s n show ?thesis by simp
qed

section \<open>Properties of the probe\<close>

lemma py_round_nearest: "\<bar>of_int (py_round x) - x\<bar> \<le> 1 / 2"
proof -
  define f where "f = \<lfloor>x\<rfloor>"
  define d where "d = x - of_int f"
  have d: "0 \<le> d" "d < 1"
    unfolding d_def f_def by linarith+
  have "(py_round x = f \<and> d \<le> 1 / 2) \<or> (py_round x = f + 1 \<and> 1 / 2 \<le> d)"
    unfolding py_round_def Let_def f_def [symmetric] d_def [symmetric] by auto
  then show ?thesis
  proof
    assume "py_round x = f \<and> d \<le> 1 / 2"
    then have "of_int (py_round x) - x = - d" and "d \<le> 1 / 2"
      by (simp_all add: d_def)
    with d show ?thesis by linarith
  next
    assume "py_round x = f + 1 \<and> 1 / 2 \<le> d"
    then have "of_int (py_round x) - x = 1 - d" and "1 / 2 \<le> d"
      by (simp_all add: d_def)
    with d show ?thesis by linarith
  qed
qed

lemma py_trunc_towards_zero:
  "\<bar>of_int (py_trunc x)\<bar> \<le> \<bar>x\<bar> \<and> \<bar>x - of_int (py_trunc x)\<bar> < 1"
proof (cases "0 \<le> x")
  case True
  have "of_int \<lfloor>x\<rfloor> \<le> x" and "x < of_int \<lfloor>x\<rfloor> + 1"
    by linarith+
  moreover from True have "(0::rat) \<le> of_int \<lfloor>x\<rfloor>" by simp
  moreover from True have "py_trunc x = \<lfloor>x\<rfloor>" by (simp add: py_trunc_def)
  ultimately show ?thesis using True by linarith
next
  case False
  have "x \<le> of_int \<lceil>x\<rceil>" and "of_int \<lceil>x\<rceil> < x + 1"
    by linarith+
  moreover from False have "\<lceil>x\<rceil> \<le> 0" by (simp add: ceiling_le_iff)
  then have "of_int \<lceil>x\<rceil> \<le> (0::rat)" by simp
  moreover from False have "py_trunc x = \<lceil>x\<rceil>" by (simp add: py_trunc_def)
  ultimately show ?thesis using False by linarith
qed

text \<open>
  C9. A file that is an image or a pdf is marked success at once and keeps its duration,
  and \<open>media_init\<close> then creates no job and queues no work. Otherwise a probe that
  reports video with a finite duration and a height gives type video with the duration
  rounded to the nearest second (ties to the even second); a probe that reports audio and
  not video gives type audio, marked success, with the duration truncated towards zero.
  The types video and audio arise in no other way.
\<close>

theorem set_media_type_durations:
  "(kind_media_type kind self \<in> {''image'', ''pdf''} \<longrightarrow>
      (\<exists>fields. set_media_type kind ret save self =
         Inr (self\<lparr>media_type := kind_media_type kind self, encoding_status := ''success''\<rparr>,
              fields))
      \<and> (\<exists>b s w'. media_init st profile_table allowed kind ret self w = Inr (b, s, w')
            \<and> encodings w' = encodings w \<and> queue w' = queue w))
   \<and> (kind_media_type kind self \<notin> {''image'', ''pdf''} \<and> ret_is_video ret
        \<and> (ret_video_duration ret = Some (Finite x) \<or> ret_video_duration ret = None \<and> x = 0)
        \<and> ret_video_height ret = Some h \<longrightarrow>
      (\<exists>s fields. set_media_type kind ret save self = Inr (s, fields)
         \<and> media_type s = ''video'' \<and> duration s = py_round x
         \<and> \<bar>of_int (duration s) - x\<bar> \<le> 1 / 2 \<and> video_height s = h))
   \<and> (kind_media_type kind self \<notin> {''image'', ''pdf''} \<and> \<not> ret_is_video ret \<and> ret_is_audio ret
        \<and> (ret_audio_duration ret = Some (Finite x) \<or> ret_audio_duration ret = None \<and> x = 0) \<longrightarrow>
      (\<exists>s fields. set_media_type kind ret save self = Inr (s, fields)
         \<and> media_type s = ''audio'' \<and> encoding_status s = ''success''
         \<and> duration s = py_trunc x \<and> (0 \<le> x \<longrightarrow> duration s = \<lfloor>x\<rfloor>)
         \<and> \<bar>of_int (duration s)\<bar> \<le> \<bar>x\<bar> \<and> \<bar>x - of_int (duration s)\<bar> < 1))
   \<and> (\<forall>s fields. set_media_type kind ret save self = Inr (s, fields) \<longrightarrow>
        (media_type s = ''video'' \<longrightarrow> kind_media_type kind self \<notin> {''image'', ''pdf''} \<and> ret_is_video ret)
        \<and> (media_type s = ''audio'' \<longrightarrow>
              kind_media_type kind self \<notin> {''image'', ''pdf''} \<and> \<not> ret_is_video ret
              \<and> ret_is_audio ret \<and> encoding_status s = ''success'')
        \<and> (media_type s \<in> {''image'', ''pdf''} \<longrightarrow> encoding_status s = ''success''))"
proof (intro conjI)
  show "kind_media_type kind self \<in> {''image'', ''pdf''} \<longrightarrow>
      (\<exists>fields. set_media_type kind ret save self =
         Inr (self\<lparr>media_type := kind_media_type kind self, encoding_status := ''success''\<rparr>,
              fields))
      \<and> (\<exists>b s w'. media_init st profile_table allowed kind ret self w = Inr (b, s, w')
            \<and> encodings w' = encodings w \<and> queue w' = queue w)"
  proof (intro impI conjI)
    assume a: "kind_media_type kind self \<in> {''image'', ''pdf''}"
    then show "\<exists>fields. set_media_type kind ret save self =
         Inr (self\<lparr>media_type := kind_media_type kind self, encoding_status := ''success''\<rparr>,
              fields)"
      by (auto simp: set_media_type_def Let_def)
    from a have "set_media_type kind ret True self =
      Inr (self\<lparr>media_type := kind_media_type kind self, encoding_status := ''success''\<rparr>,
           [''media_type'', ''duration'', ''media_info'', ''video_height'',
            ''size'', ''md5sum'', ''encoding_status''])"
      by (auto simp: set_media_type_def Let_def)
    with a show "\<exists>b s w'. media_init st profile_table allowed kind ret self w = Inr (b, s, w')
            \<and> encodings w' = encodings w \<and> queue w' = queue w"
      by (auto simp: media_init_def log_event_def)
  qed
next
  show "kind_media_type kind self \<notin> {''image'', ''pdf''} \<and> ret_is_video ret
        \<and> (ret_video_duration ret = Some (Finite x) \<or> ret_video_duration ret = None \<and> x = 0)
        \<and> ret_video_height ret = Some h \<longrightarrow>
      (\<exists>s fields. set_media_type kind ret save self = Inr (s, fields)
         \<and> media_type s = ''video'' \<and> duration s = py_round x
         \<and> \<bar>of_int (duration s) - x\<bar> \<le> 1 / 2 \<and> video_height s = h)"
  proof
    assume a: "kind_media_type kind self \<notin> {''image'', ''pdf''} \<and> ret_is_video ret
        \<and> (ret_video_duration ret = Some (Finite x) \<or> ret_video_duration ret = None \<and> x = 0)
        \<and> ret_video_height ret = Some h"
    have "py_round 0 = 0" by (simp add: py_round_def)
    with a have "int_round_float (ret_video_duration ret) = Inr (py_round x)"
      by (auto simp: int_round_float_def)
    with a show "\<exists>s fields. set_media_type kind ret save self = Inr (s, fields)
         \<and> media_type s = ''video'' \<and> duration s = py_round x
         \<and> \<bar>of_int (duration s) - x\<bar> \<le> 1 / 2 \<and> video_height s = h"
      using py_round_nearest [of x] by (simp add: set_media_type_def Let_def)
  qed
next
  show "kind_media_type kind self \<notin> {''image'', ''pdf''} \<and> \<not> ret_is_video ret \<and> ret_is_audio ret
        \<and> (ret_audio_duration ret = Some (Finite x) \<or> ret_audio_duration ret = None \<and> x = 0) \<longrightarrow>
      (\<exists>s fields. set_media_type kind ret save self = Inr (s, fields)
         \<and> media_type s = ''audio'' \<and> encoding_status s = ''success''
         \<and> duration s = py_trunc x \<and> (0 \<le> x \<longrightarrow> duration s = \<lfloor>x\<rfloor>)
         \<and> \<bar>of_int (duration s)\<bar> \<le> \<bar>x\<bar> \<and> \<bar>x - of_int (duration s)\<bar> < 1)"
  proof
    assume a: "kind_media_type kind self \<notin> {''image'', ''pdf''} \<and> \<not> ret_is_video ret \<and> ret_is_audio ret
        \<and> (ret_audio_duration ret = Some (Finite x) \<or> ret_audio_duration ret = None \<and> x = 0)"
    have "py_trunc 0 = 0" by (simp add: py_trunc_def)
    with a have "int_float (ret_audio_duration ret) = Inr (py_trunc x)"
      by (auto simp: int_float_def)
    moreover have "0 \<le> x \<longrightarrow> py_trunc x = \<lfloor>x\<rfloor>" by (simp add: py_trunc_def)
    ultimately show "\<exists>s fields. set_media_type kind ret save self = Inr (s, fields)
         \<and> media_type s = ''audio'' \<and> encoding_status s = ''success''
         \<and> duration s = py_trunc x \<and> (0 \<le> x \<longrightarrow> duration s = \<lfloor>x\<rfloor>)
         \<and> \<bar>of_int (duration s)\<bar> \<le> \<bar>x\<bar> \<and> \<bar>x - of_int (duration s)\<bar> < 1"
      using a py_trunc_towards_zero [of x] by (simp add: set_media_type_def Let_def)
  qed
next
  show "\<forall>s fields. set_media_type kind ret save self = Inr (s, fields) \<longrightarrow>
        (media_type s = ''video'' \<longrightarrow> kind_media_type kind self \<notin> {''image'', ''pdf''} \<and> ret_is_video ret)
        \<and> (media_type s = ''audio'' \<longrightarrow>
              kind_media_type kind self \<notin> {''image'', ''pdf''} \<and> \<not> ret_is_video ret
              \<and> ret_is_audio ret \<and> encoding_status s = ''success'')
        \<and> (media_type s \<in> {''image'', ''pdf''} \<longrightarrow> encoding_status s = ''success'')"
  proof (intro allI impI)
    fix s fields
    assume "set_media_type kind ret save self = Inr (s, fields)"
    then show "(media_type s = ''video'' \<longrightarrow> kind_media_type kind self \<notin> {''image'', ''pdf''} \<and> ret_is_video ret)
        \<and> (media_type s = ''audio'' \<longrightarrow>
              kind_media_type kind self \<notin> {''image'', ''pdf''} \<and> \<not> ret_is_video ret
              \<and> ret_is_audio ret \<and> encoding_status s = ''success'')
        \<and> (media_type s \<in> {''image'', ''pdf''} \<longrightarrow> encoding_status s = ''success'')"
      by (auto simp: set_media_type_def Let_def split: if_splits sum.splits option.splits)
  qed
qed

theorem set_media_type_durations_witness:
  "(\<exists>fields. set_media_type (Some ''image'') video_probe True sample_media =
       Inr (sample_media\<lparr>media_type := ''image'', encoding_status := ''success''\<rparr>, fields))
   \<and> (\<exists>b s w'. media_init sample_settings [mp4_720] (\<lambda>m. True) (Some ''pdf'') video_probe
          sample_media (world_of []) = Inr (b, s, w')
        \<and> encodings w' = [] \<and> queue w' = [])
   \<and> (\<exists>s fields. set_media_type (Some ''video'') video_probe True sample_media = Inr (s, fields)
        \<and> media_type s = ''video'' \<and> duration s = 4 \<and> video_height s = 720)
   \<and> (\<exists>s fields. set_media_type (Some ''audio'') audio_probe True sample_media = Inr (s, fields)
        \<and> media_type s = ''audio'' \<and> encoding_status s = ''success'' \<and> duration s = 9)"
proof -
  have r: "py_round (7 / 2) = 4"
    by code_simp
  have t: "py_trunc (19 / 2) = 9"
    by code_simp
  have i: "kind_media_type (Some ''image'') sample_media \<in> {''image'', ''pdf''}"
    and p: "kind_media_type (Some ''pdf'') sample_media \<in> {''image'', ''pdf''}"
    by (simp_all add: kind_media_type_def)
  have v: "kind_media_type (Some ''video'') sample_media \<notin> {''image'', ''pdf''}
        \<and> ret_is_video video_probe
        \<and> (ret_video_duration video_probe = Some (Finite (7 / 2))
            \<or> ret_video_duration video_probe = None \<and> (7 / 2 :: rat) = 0)
        \<and> ret_video_height video_probe = Some 720"
    by (simp add: kind_media_type_def video_probe_def)
  have a: "kind_media_type (Some ''audio'') sample_media \<notin> {''image'', ''pdf''}
        \<and> \<not> ret_is_video audio_probe \<and> ret_is_audio audio_probe
        \<and> (ret_audio_duration audio_probe = Some (Finite (19 / 2))
            \<or> ret_audio_duration audio_probe = None \<and> (19 / 2 :: rat) = 0)"
    by (simp add: kind_media_type_def audio_probe_def)
  from set_media_type_durations [THEN conjunct1, THEN mp, OF i, THEN conjunct1,
      of video_probe True]
  have c1: "\<exists>fields. set_media_type (Some ''image'') video_probe True sample_media =
       Inr (sample_media\<lparr>media_type := ''image'', encoding_status := ''success''\<rparr>, fields)"
    by (simp add: kind_media_type_def)
  from set_media_type_durations [THEN conjunct1, THEN mp, OF p, THEN conjunct2,
      of sample_settings "[mp4_720]" "\<lambda>m. True" video_probe "world_of []"]
  have c2: "\<exists>b s w'. media_init sample_settings [mp4_720] (\<lambda>m. True) (Some ''pdf'') video_probe
          sample_media (world_of []) = Inr (b, s, w') \<and> encodings w' = [] \<and> queue w' = []"
    by (simp add: world_of_def)
  from set_media_type_durations [THEN conjunct2, THEN conjunct1, THEN mp, OF v, of True] r
  have c3: "\<exists>s fields. set_media_type (Some ''video'') video_probe True sample_media = Inr (s, fields)
        \<and> media_type s = ''video'' \<and> duration s = 4 \<and> video_height s = 720"
    by auto
  from set_media_type_durations [THEN conjunct2, THEN conjunct2, THEN conjunct1, THEN mp, OF a, of True] t
  have c4: "\<exists>s fields. set_media_type (Some ''audio'') audio_probe True sample_media = Inr (s, fields)
        \<and> media_type s = ''audio'' \<and> encoding_status s = ''success'' \<and> duration s = 9"
    by auto
  from c1 c2 c3 c4 show ?thesis by blast
qed

section \<open>Properties of the dispatch\<close>

text \<open>A pending job raises nothing when it is saved, so the four shared lines always return.\<close>

lemma create_and_queue_eq:
  "create_and_queue st self force pr p w = Inr (dispatched st self force (\<lambda>_. pr) [p] w)"
  by (simp add: create_and_queue_def save_new_def post_save_other_def new_encoding_def
      apply_async_def queued_for_def dispatched_def Let_def)

lemma dispatched_Nil [simp]: "dispatched st self force prio [] w = w"
  by (simp add: dispatched_def queued_for_def)

lemma dispatched_Cons:
  "dispatched st self force prio ps (dispatched st self force (\<lambda>_. prio p) [p] w) =
     dispatched st self force prio (p # ps) w"
  by (simp add: dispatched_def queued_for_def new_encoding_def)

lemma rows_for_profiles [simp]: "map profile (rows_for self n t ps) = ps"
  by (induction ps arbitrary: n) (simp_all add: new_encoding_def)

lemma rows_for_length [simp]: "length (rows_for self n t ps) = length ps"
  by (induction ps arbitrary: n) simp_all

lemma rows_for_not_chunk: "e \<in> set (rows_for self n t ps) \<Longrightarrow> \<not> chunk e \<and> status e = ''pending''"
  by (induction ps arbitrary: n) (auto simp: new_encoding_def)

lemma queued_for_not_chunkize: "t \<in> set (queued_for st self force prio rows) \<Longrightarrow> \<not> is_chunkize t"
  by (auto simp: queued_for_def)

lemma encode_whole_runs:
  "\<exists>qs. set qs \<subseteq> set ps \<and>
        snd (encode_whole st self force ps w) = dispatched st self force (priority_of st) qs w"
proof (induction ps arbitrary: w)
  case Nil
  show ?case by (rule exI [of _ "[]"]) simp
next
  case (Cons p ps)
  show ?case
  proof (cases "skip_profile st self p")
    case (Inl e)
    then show ?thesis by (intro exI [of _ "[]"]) simp
  next
    case (Inr skip)
    show ?thesis
    proof (cases skip)
      case True
      from Cons.IH [of w] obtain qs where "set qs \<subseteq> set ps"
        and "snd (encode_whole st self force ps w) = dispatched st self force (priority_of st) qs w"
        by blast
      with Inr True show ?thesis by (intro exI [of _ qs]) auto
    next
      case False
      from Cons.IH [of "dispatched st self force (\<lambda>_. priority_of st p) [p] w"]
      obtain qs where "set qs \<subseteq> set ps"
        and "snd (encode_whole st self force ps
                    (dispatched st self force (\<lambda>_. priority_of st p) [p] w)) =
          dispatched st self force (priority_of st) qs
            (dispatched st self force (\<lambda>_. priority_of st p) [p] w)"
        by blast
      with Inr False show ?thesis
        by (intro exI [of _ "p # qs"]) (auto simp: create_and_queue_eq dispatched_Cons)
    qed
  qed
qed

lemma encode_whole_well_formed:
  assumes "\<forall>p \<in> set ps. extension p \<noteq> ''gif'' \<longrightarrow> resolution p \<noteq> None"
  shows "encode_whole st self force ps w =
     (None, dispatched st self force (priority_of st)
              (filter (\<lambda>p. skip_profile st self p = Inr False) ps) w)"
  using assms
proof (induction ps arbitrary: w)
  case Nil
  then show ?case by simp
next
  case (Cons p ps)
  have "\<exists>b. skip_profile st self p = Inr b"
    using Cons.prems by (auto simp: skip_profile_def split: option.splits)
  then obtain b where b: "skip_profile st self p = Inr b" ..
  with Cons show ?case by (cases b) (simp_all add: create_and_queue_eq dispatched_Cons)
qed

lemma skip_profile_False_iff:
  "skip_profile st self p = Inr False \<longleftrightarrow>
     extension p = ''gif'' \<or> video_height self = 0
     \<or> (\<exists>r. resolution p = Some r
            \<and> (r \<le> video_height self \<or> r \<in> set (MINIMUM_RESOLUTIONS_TO_ENCODE st)))"
  by (auto simp: skip_profile_def split: option.splits)

lemma priority_of_eq:
  "priority_of st p =
     (if \<exists>r. resolution p = Some r \<and> r \<in> set (MINIMUM_RESOLUTIONS_TO_ENCODE st) then 9 else 0)"
  by (auto simp: priority_of_def split: option.splits)

lemma remove_profile_append:
  "\<forall>q \<in> set pre. profile_id q \<noteq> profile_id p \<Longrightarrow>
   remove_profile p (pre @ p # qs) = pre @ qs"
  by (induction pre) simp_all

lemma encode_gifs_world:
  "\<exists>ps'. encode_gifs st self force cs profiles w =
     Inr (ps', dispatched st self force (\<lambda>_. 0) (filter (\<lambda>p. extension p = ''gif'') cs) w)"
proof (induction cs arbitrary: profiles w)
  case Nil
  then show ?case by simp
next
  case (Cons c cs)
  show ?case
  proof (cases "extension c = ''gif''")
    case True
    from Cons.IH [of "remove_profile c profiles" "dispatched st self force (\<lambda>_. 0) [c] w"]
    obtain ps' where "encode_gifs st self force cs (remove_profile c profiles)
          (dispatched st self force (\<lambda>_. 0) [c] w) =
        Inr (ps', dispatched st self force (\<lambda>_. 0) (filter (\<lambda>p. extension p = ''gif'') cs)
                    (dispatched st self force (\<lambda>_. 0) [c] w))" ..
    with True dispatched_Cons [of st self force "\<lambda>_. 0" _ c w] show ?thesis
      by (simp add: create_and_queue_eq)
  next
    case False
    with Cons.IH [of profiles w] show ?thesis by simp
  qed
qed

lemma encode_gifs_profiles:
  assumes "pk_consistent (pre @ cs)" and "\<forall>p \<in> set pre. extension p \<noteq> ''gif''"
  shows "\<exists>w'. encode_gifs st self force cs (pre @ cs) w =
     Inr (pre @ filter (\<lambda>p. extension p \<noteq> ''gif'') cs, w')"
  using assms
proof (induction cs arbitrary: pre w)
  case Nil
  then show ?case by simp
next
  case (Cons c cs)
  show ?case
  proof (cases "extension c = ''gif''")
    case True
    have "\<forall>q \<in> set pre. profile_id q \<noteq> profile_id c"
    proof
      fix q assume q: "q \<in> set pre"
      show "profile_id q \<noteq> profile_id c"
      proof
        assume "profile_id q = profile_id c"
        with Cons.prems(1) q have "q = c" by (auto simp: pk_consistent_def)
        with Cons.prems(2) q True show False by auto
      qed
    qed
    then have r: "remove_profile c (pre @ c # cs) = pre @ cs"
      by (rule remove_profile_append)
    from Cons.prems(1) have "pk_consistent (pre @ cs)"
      by (auto simp: pk_consistent_def)
    from Cons.IH [OF this Cons.prems(2), of "dispatched st self force (\<lambda>_. 0) [c] w"] True r
    show ?thesis by (simp add: create_and_queue_eq)
  next
    case False
    from Cons.prems(1) have "pk_consistent ((pre @ [c]) @ cs)" by simp
    moreover from Cons.prems(2) False have "\<forall>p \<in> set (pre @ [c]). extension p \<noteq> ''gif''"
      by auto
    ultimately have "\<exists>w'. encode_gifs st self force cs ((pre @ [c]) @ cs) w =
        Inr ((pre @ [c]) @ filter (\<lambda>p. extension p \<noteq> ''gif'') cs, w')"
      by (rule Cons.IH)
    with False show ?thesis by simp
  qed
qed

text \<open>
  C5. When the duration does not exceed \<open>CHUNKIZE_VIDEO_DURATION\<close> (equality included),
  \<open>encode\<close> queues no chunking request and creates no chunk job, whatever \<open>chunkize\<close>
  says: all it leaves are pending whole-file jobs for profiles of the list, each with its
  \<open>encode_media\<close> task. When every profile other than gif has a resolution, no exception
  arises, and the jobs are exactly one per profile that the height test does not skip,
  in the order of the list.
\<close>

theorem no_chunking_up_to_threshold:
  assumes "duration self \<le> CHUNKIZE_VIDEO_DURATION st"
  shows "\<exists>qs. set qs \<subseteq> set (profiles_or_active profile_table profiles)
      \<and> snd (encode st profile_table self profiles force chunkize w) =
          w\<lparr>encodings := encodings w @ rows_for self (next_id w) (now w) qs,
            next_id := next_id w + length qs,
            queue := queue w @ queued_for st self force (priority_of st)
                                 (rows_for self (next_id w) (now w) qs)\<rparr>
      \<and> (\<forall>e \<in> set (rows_for self (next_id w) (now w) qs). \<not> chunk e)
      \<and> (\<forall>t \<in> set (queued_for st self force (priority_of st)
                        (rows_for self (next_id w) (now w) qs)). \<not> is_chunkize t)
      \<and> ((\<forall>p \<in> set (profiles_or_active profile_table profiles).
             extension p \<noteq> ''gif'' \<longrightarrow> resolution p \<noteq> None) \<longrightarrow>
           fst (encode st profile_table self profiles force chunkize w) = None
           \<and> qs = filter (\<lambda>p. skip_profile st self p = Inr False)
                    (profiles_or_active profile_table profiles))"
proof -
  let ?ps = "profiles_or_active profile_table profiles"
  let ?wf = "\<forall>p \<in> set ?ps. extension p \<noteq> ''gif'' \<longrightarrow> resolution p \<noteq> None"
  from assms have enc: "encode st profile_table self profiles force chunkize w =
      encode_whole st self force ?ps w"
    by (simp add: encode_def Let_def)
  have "\<exists>qs. set qs \<subseteq> set ?ps
      \<and> snd (encode_whole st self force ?ps w) =
          dispatched st self force (priority_of st) qs w
      \<and> (?wf \<longrightarrow> fst (encode_whole st self force ?ps w) = None
             \<and> qs = filter (\<lambda>p. skip_profile st self p = Inr False) ?ps)"
  proof (cases ?wf)
    case True
    from encode_whole_well_formed [OF True, of st self force w] True
    show ?thesis
      by (intro exI [of _ "filter (\<lambda>p. skip_profile st self p = Inr False) ?ps"]) auto
  next
    case False
    from encode_whole_runs [of ?ps st self force w] obtain qs where "set qs \<subseteq> set ?ps"
      and "snd (encode_whole st self force ?ps w) =
          dispatched st self force (priority_of st) qs w"
      by blast
    with False show ?thesis by blast
  qed
  then obtain qs where qs: "set qs \<subseteq> set ?ps"
    "snd (encode_whole st self force ?ps w) =
          dispatched st self force (priority_of st) qs w"
    "?wf \<longrightarrow> fst (encode_whole st self force ?ps w) = None
             \<and> qs = filter (\<lambda>p. skip_profile st self p = Inr False) ?ps"
    by blast
  show ?thesis
  proof (intro exI [of _ qs] conjI)
    show "set qs \<subseteq> set ?ps" by (rule qs(1))
    show "snd (encode st profile_table self profiles force chunkize w) =
          w\<lparr>encodings := encodings w @ rows_for self (next_id w) (now w) qs,
            next_id := next_id w + length qs,
            queue := queue w @ queued_for st self force (priority_of st)
                                 (rows_for self (next_id w) (now w) qs)\<rparr>"
      using qs(2) by (simp only: enc dispatched_def)
    show "\<forall>e \<in> set (rows_for self (next_id w) (now w) qs). \<not> chunk e"
      using rows_for_not_chunk by blast
    show "\<forall>t \<in> set (queued_for st self force (priority_of st)
                        (rows_for self (next_id w) (now w) qs)). \<not> is_chunkize t"
      using queued_for_not_chunkize by blast
    show "?wf \<longrightarrow> fst (encode st profile_table self profiles force chunkize w) = None
           \<and> qs = filter (\<lambda>p. skip_profile st self p = Inr False) ?ps"
      using qs(3) by (simp only: enc)
  qed
qed

text \<open>
  A source of exactly 3600 seconds and 720 lines with the profiles 720, 1080 and gif:
  1080 is skipped, the other two become whole-file jobs, and nothing else is queued.
\<close>

theorem no_chunking_up_to_threshold_witness:
  "duration (sample_media\<lparr>duration := 3600, video_height := 720\<rparr>)
     \<le> CHUNKIZE_VIDEO_DURATION sample_settings
   \<and> encode sample_settings [] (sample_media\<lparr>duration := 3600, video_height := 720\<rparr>)
        (Some [mp4_720, mp4_1080, gif_preview]) True True (world_of [])
     = (None,
        \<lparr>encodings =
           [(new_encoding 7 mp4_720)\<lparr>encoding_id := 100, add_date := 9000000, update_date := 9000000\<rparr>,
            (new_encoding 7 gif_preview)\<lparr>encoding_id := 101, add_date := 9000000, update_date := 9000000\<rparr>],
         medias = [sample_media], next_id = 102, now = 9000000, events = [],
         queue = [Encode_media ''tok'' 1 100 ''https://host/api/v1/encode/100'' True 0,
                  Encode_media ''tok'' 3 101 ''https://host/api/v1/encode/101'' True 0]\<rparr>)"
proof -
  let ?m = "sample_media\<lparr>duration := 3600, video_height := 720\<rparr>"
  let ?ps = "[mp4_720, mp4_1080, gif_preview]"
  let ?R = "encode sample_settings [] ?m (Some ?ps) True True (world_of [])"
  have h: "duration ?m \<le> CHUNKIZE_VIDEO_DURATION sample_settings"
    by (simp add: sample_settings_def)
  have wf: "\<forall>p \<in> set (profiles_or_active [] (Some ?ps)).
             extension p \<noteq> ''gif'' \<longrightarrow> resolution p \<noteq> None"
    by (simp add: profiles_or_active_def mp4_720_def mp4_1080_def gif_preview_def)
  have sel: "filter (\<lambda>p. skip_profile sample_settings ?m p = Inr False)
               (profiles_or_active [] (Some ?ps)) = [mp4_720, gif_preview]"
    by (simp add: profiles_or_active_def skip_profile_def sample_settings_def
        mp4_720_def mp4_1080_def gif_preview_def)
  from no_chunking_up_to_threshold [OF h, of "[]" "Some ?ps" True True "world_of []"] wf sel
  have s: "snd ?R =
      (world_of [])\<lparr>encodings := encodings (world_of [])
           @ rows_for ?m (next_id (world_of [])) (now (world_of [])) [mp4_720, gif_preview],
         next_id := next_id (world_of []) + length [mp4_720, gif_preview],
         queue := queue (world_of []) @ queued_for sample_settings ?m True (priority_of sample_settings)
                    (rows_for ?m (next_id (world_of [])) (now (world_of [])) [mp4_720, gif_preview])\<rparr>"
    and f: "fst ?R = None"
    by auto
  have "?R = (fst ?R, snd ?R)" by simp
  also have "\<dots> = (None,
        \<lparr>encodings =
           [(new_encoding 7 mp4_720)\<lparr>encoding_id := 100, add_date := 9000000, update_date := 9000000\<rparr>,
            (new_encoding 7 gif_preview)\<lparr>encoding_id := 101, add_date := 9000000, update_date := 9000000\<rparr>],
         medias = [sample_media], next_id = 102, now = 9000000, events = [],
         queue = [Encode_media ''tok'' 1 100 ''https://host/api/v1/encode/100'' True 0,
                  Encode_media ''tok'' 3 101 ''https://host/api/v1/encode/101'' True 0]\<rparr>)"
    unfolding s f
    by (simp add: world_of_def queued_for_def priority_of_def sample_settings_def
        sample_media_def new_encoding_def mp4_720_def gif_preview_def)
  finally show ?thesis using h by simp
qed

text \<open>
  C6 (amended). When the duration exceeds \<open>CHUNKIZE_VIDEO_DURATION\<close> and the call asks for
  chunking (\<open>chunkize\<close>, the default), each gif profile of the list gets one pending
  whole-file job, never a chunk, queued at priority 0, and after them exactly one chunking
  request is queued; for profiles read from one table it names all the profiles that are
  not gif, in the order of the list.
\<close>

theorem chunked_dispatch:
  assumes "duration self > CHUNKIZE_VIDEO_DURATION st" and "chunkize"
  shows "\<exists>ids. encode st profile_table self profiles force chunkize w =
       (None,
        w\<lparr>encodings := encodings w @
             rows_for self (next_id w) (now w)
               (filter (\<lambda>p. extension p = ''gif'') (profiles_or_active profile_table profiles)),
          next_id := next_id w +
             length (filter (\<lambda>p. extension p = ''gif'') (profiles_or_active profile_table profiles)),
          queue := queue w @
             queued_for st self force (\<lambda>_. 0)
               (rows_for self (next_id w) (now w)
                  (filter (\<lambda>p. extension p = ''gif'') (profiles_or_active profile_table profiles)))
             @ [Chunkize_media (friendly_token self) ids force]\<rparr>)
     \<and> (\<forall>e \<in> set (rows_for self (next_id w) (now w)
                (filter (\<lambda>p. extension p = ''gif'') (profiles_or_active profile_table profiles))).
           \<not> chunk e)
     \<and> (pk_consistent (profiles_or_active profile_table profiles) \<longrightarrow>
           ids = map profile_id
                   (filter (\<lambda>p. extension p \<noteq> ''gif'') (profiles_or_active profile_table profiles)))"
proof -
  let ?ps = "profiles_or_active profile_table profiles"
  let ?gifs = "filter (\<lambda>p. extension p = ''gif'') ?ps"
  from encode_gifs_world [of st self force ?ps ?ps w]
  obtain ps' where g: "encode_gifs st self force ?ps ?ps w =
      Inr (ps', dispatched st self force (\<lambda>_. 0) ?gifs w)" ..
  from assms g have e: "encode st profile_table self profiles force chunkize w =
       (None,
        w\<lparr>encodings := encodings w @ rows_for self (next_id w) (now w) ?gifs,
          next_id := next_id w + length ?gifs,
          queue := queue w @ queued_for st self force (\<lambda>_. 0)
                               (rows_for self (next_id w) (now w) ?gifs)
             @ [Chunkize_media (friendly_token self) (map profile_id ps') force]\<rparr>)"
    by (simp add: encode_def Let_def apply_async_def dispatched_def)
  have p: "pk_consistent ?ps \<longrightarrow>
      map profile_id ps' = map profile_id (filter (\<lambda>p. extension p \<noteq> ''gif'') ?ps)"
  proof
    assume "pk_consistent ?ps"
    then have "pk_consistent ([] @ ?ps)" by simp
    from encode_gifs_profiles [OF this, of st self force w] g
    show "map profile_id ps' = map profile_id (filter (\<lambda>p. extension p \<noteq> ''gif'') ?ps)"
      by auto
  qed
  have c: "\<forall>e \<in> set (rows_for self (next_id w) (now w) ?gifs). \<not> chunk e"
    using rows_for_not_chunk by blast
  from e p c show ?thesis by blast
qed

text \<open>
  Two hours of video with the profiles 720, gif and 1080: the gif becomes one whole-file
  job, and the profiles 1 and 2 go into one chunking request.
\<close>

theorem chunked_dispatch_witness:
  "duration sample_media > CHUNKIZE_VIDEO_DURATION sample_settings
   \<and> encode sample_settings [] sample_media (Some [mp4_720, gif_preview, mp4_1080]) True True
        (world_of [])
     = (None,
        \<lparr>encodings =
           [(new_encoding 7 gif_preview)\<lparr>encoding_id := 100, add_date := 9000000, update_date := 9000000\<rparr>],
         medias = [sample_media], next_id = 101, now = 9000000, events = [],
         queue = [Encode_media ''tok'' 3 100 ''https://host/api/v1/encode/100'' True 0,
                  Chunkize_media ''tok'' [1, 2] True]\<rparr>)"
proof -
  let ?ps = "[mp4_720, gif_preview, mp4_1080]"
  have h: "duration sample_media > CHUNKIZE_VIDEO_DURATION sample_settings"
    by (simp add: sample_settings_def sample_media_def)
  have pk: "pk_consistent (profiles_or_active [] (Some ?ps))"
    by (simp add: pk_consistent_def profiles_or_active_def mp4_720_def mp4_1080_def gif_preview_def)
  have g: "filter (\<lambda>p. extension p = ''gif'') (profiles_or_active [] (Some ?ps)) = [gif_preview]"
    and n: "filter (\<lambda>p. extension p \<noteq> ''gif'') (profiles_or_active [] (Some ?ps)) = [mp4_720, mp4_1080]"
    by (simp_all add: profiles_or_active_def mp4_720_def mp4_1080_def gif_preview_def)
  from chunked_dispatch [OF h TrueI, of "[]" "Some ?ps" True "world_of []"] pk
  have "encode sample_settings [] sample_media (Some ?ps) True True (world_of []) =
       (None,
        (world_of [])\<lparr>encodings := encodings (world_of []) @
             rows_for sample_media (next_id (world_of [])) (now (world_of [])) [gif_preview],
          next_id := next_id (world_of []) + length [gif_preview],
          queue := queue (world_of []) @
             queued_for sample_settings sample_media True (\<lambda>_. 0)
               (rows_for sample_media (next_id (world_of [])) (now (world_of [])) [gif_preview])
             @ [Chunkize_media (friendly_token sample_media) (map profile_id [mp4_720, mp4_1080]) True]\<rparr>)"
    unfolding g n by blast
  also have "\<dots> = (None,
        \<lparr>encodings =
           [(new_encoding 7 gif_preview)\<lparr>encoding_id := 100, add_date := 9000000, update_date := 9000000\<rparr>],
         medias = [sample_media], next_id = 101, now = 9000000, events = [],
         queue = [Encode_media ''tok'' 3 100 ''https://host/api/v1/encode/100'' True 0,
                  Chunkize_media ''tok'' [1, 2] True]\<rparr>)"
    by (simp add: world_of_def queued_for_def sample_settings_def sample_media_def
        new_encoding_def mp4_720_def mp4_1080_def gif_preview_def)
  finally show ?thesis using h by simp
qed

text \<open>
  The claim as stated chunks every source longer than the threshold. The same two hours
  of video encoded with \<open>chunkize=False\<close>: both profiles become whole-file jobs and no
  chunking request is queued.
\<close>

theorem long_source_not_chunked_counterexample:
  "encode sample_settings [] sample_media (Some [mp4_720, gif_preview]) True False (world_of [])
     = (None,
        \<lparr>encodings =
           [(new_encoding 7 mp4_720)\<lparr>encoding_id := 100, add_date := 9000000, update_date := 9000000\<rparr>,
            (new_encoding 7 gif_preview)\<lparr>encoding_id := 101, add_date := 9000000, update_date := 9000000\<rparr>],
         medias = [sample_media], next_id = 102, now = 9000000, events = [],
         queue = [Encode_media ''tok'' 1 100 ''https://host/api/v1/encode/100'' True 0,
                  Encode_media ''tok'' 3 101 ''https://host/api/v1/encode/101'' True 0]\<rparr>)"
  by code_simp

text \<open>
  C7 (amended). Where \<open>encode\<close> dispatches whole-file jobs (the source is not chunked) and
  every profile other than gif has a resolution, a job is created for exactly the profiles
  that are gif, or whose resolution does not exceed the source height, or whose resolution
  is in \<open>MINIMUM_RESOLUTIONS_TO_ENCODE\<close>, and for every profile when the stored height is
  0; the task of a job has priority 9 when the resolution of its profile is in that list
  and priority 0 otherwise.
\<close>

theorem whole_file_selection_and_priority:
  assumes "\<not> (duration self > CHUNKIZE_VIDEO_DURATION st \<and> chunkize)"
    and "\<forall>p \<in> set (profiles_or_active profile_table profiles).
           extension p \<noteq> ''gif'' \<longrightarrow> resolution p \<noteq> None"
  shows "encode st profile_table self profiles force chunkize w =
     (None,
      w\<lparr>encodings := encodings w @
           rows_for self (next_id w) (now w)
             (filter (\<lambda>p. extension p = ''gif'' \<or> video_height self = 0
                        \<or> (\<exists>r. resolution p = Some r
                               \<and> (r \<le> video_height self
                                   \<or> r \<in> set (MINIMUM_RESOLUTIONS_TO_ENCODE st))))
                (profiles_or_active profile_table profiles)),
        next_id := next_id w +
           length (filter (\<lambda>p. extension p = ''gif'' \<or> video_height self = 0
                        \<or> (\<exists>r. resolution p = Some r
                               \<and> (r \<le> video_height self
                                   \<or> r \<in> set (MINIMUM_RESOLUTIONS_TO_ENCODE st))))
                (profiles_or_active profile_table profiles)),
        queue := queue w @
           queued_for st self force
             (\<lambda>p. if \<exists>r. resolution p = Some r \<and> r \<in> set (MINIMUM_RESOLUTIONS_TO_ENCODE st)
                  then 9 else 0)
             (rows_for self (next_id w) (now w)
                (filter (\<lambda>p. extension p = ''gif'' \<or> video_height self = 0
                           \<or> (\<exists>r. resolution p = Some r
                                  \<and> (r \<le> video_height self
                                      \<or> r \<in> set (MINIMUM_RESOLUTIONS_TO_ENCODE st))))
                   (profiles_or_active profile_table profiles)))\<rparr>)"
proof -
  let ?ps = "profiles_or_active profile_table profiles"
  have sel: "(\<lambda>p. skip_profile st self p = Inr False) =
      (\<lambda>p. extension p = ''gif'' \<or> video_height self = 0
            \<or> (\<exists>r. resolution p = Some r
                   \<and> (r \<le> video_height self \<or> r \<in> set (MINIMUM_RESOLUTIONS_TO_ENCODE st))))"
    by (rule ext) (rule skip_profile_False_iff)
  have prio: "priority_of st =
      (\<lambda>p. if \<exists>r. resolution p = Some r \<and> r \<in> set (MINIMUM_RESOLUTIONS_TO_ENCODE st)
           then 9 else 0)"
    by (rule ext) (rule priority_of_eq)
  from assms(1) have "encode st profile_table self profiles force chunkize w =
      encode_whole st self force ?ps w"
    by (auto simp: encode_def Let_def)
  also have "\<dots> = (None, dispatched st self force (priority_of st)
              (filter (\<lambda>p. skip_profile st self p = Inr False) ?ps) w)"
    by (rule encode_whole_well_formed [OF assms(2)])
  finally show ?thesis
    by (simp only: dispatched_def sel prio)
qed

text \<open>
  A source of 200 lines with the profiles 240, 720 and gif: 240 is encoded although it
  exceeds the height, because it is in the list, and at priority 9; 720 is skipped; the
  gif is encoded at priority 0.
\<close>

theorem whole_file_selection_and_priority_witness:
  "duration (sample_media\<lparr>duration := 60, video_height := 200\<rparr>)
     \<le> CHUNKIZE_VIDEO_DURATION sample_settings
   \<and> encode sample_settings [] (sample_media\<lparr>duration := 60, video_height := 200\<rparr>)
        (Some [mp4_240, mp4_720, gif_preview]) True True (world_of [])
     = (None,
        \<lparr>encodings =
           [(new_encoding 7 mp4_240)\<lparr>encoding_id := 100, add_date := 9000000, update_date := 9000000\<rparr>,
            (new_encoding 7 gif_preview)\<lparr>encoding_id := 101, add_date := 9000000, update_date := 9000000\<rparr>],
         medias = [sample_media], next_id = 102, now = 9000000, events = [],
         queue = [Encode_media ''tok'' 4 100 ''https://host/api/v1/encode/100'' True 9,
                  Encode_media ''tok'' 3 101 ''https://host/api/v1/encode/101'' True 0]\<rparr>)"
proof -
  let ?m = "sample_media\<lparr>duration := 60, video_height := 200\<rparr>"
  let ?ps = "[mp4_240, mp4_720, gif_preview]"
  have h: "\<not> (duration ?m > CHUNKIZE_VIDEO_DURATION sample_settings \<and> True)"
    by (simp add: sample_settings_def)
  have wf: "\<forall>p \<in> set (profiles_or_active [] (Some ?ps)).
             extension p \<noteq> ''gif'' \<longrightarrow> resolution p \<noteq> None"
    by (simp add: profiles_or_active_def mp4_240_def mp4_720_def gif_preview_def)
  have sel: "filter (\<lambda>p. extension p = ''gif'' \<or> video_height ?m = 0
                        \<or> (\<exists>r. resolution p = Some r
                               \<and> (r \<le> video_height ?m
                                   \<or> r \<in> set (MINIMUM_RESOLUTIONS_TO_ENCODE sample_settings))))
                (profiles_or_active [] (Some ?ps)) = [mp4_240, gif_preview]"
    by (simp add: profiles_or_active_def sample_settings_def
        mp4_240_def mp4_720_def gif_preview_def)
  have "encode sample_settings [] ?m (Some ?ps) True True (world_of []) =
     (None,
      (world_of [])\<lparr>encodings := encodings (world_of []) @
           rows_for ?m (next_id (world_of [])) (now (world_of [])) [mp4_240, gif_preview],
        next_id := next_id (world_of []) + length [mp4_240, gif_preview],
        queue := queue (world_of []) @
           queued_for sample_settings ?m True
             (\<lambda>p. if \<exists>r. resolution p = Some r
                         \<and> r \<in> set (MINIMUM_RESOLUTIONS_TO_ENCODE sample_settings)
                  then 9 else 0)
             (rows_for ?m (next_id (world_of [])) (now (world_of [])) [mp4_240, gif_preview])\<rparr>)"
    using whole_file_selection_and_priority [OF h wf, of True "world_of []"]
    unfolding sel .
  also have "\<dots> = (None,
        \<lparr>encodings =
           [(new_encoding 7 mp4_240)\<lparr>encoding_id := 100, add_date := 9000000, update_date := 9000000\<rparr>,
            (new_encoding 7 gif_preview)\<lparr>encoding_id := 101, add_date := 9000000, update_date := 9000000\<rparr>],
         medias = [sample_media], next_id = 102, now = 9000000, events = [],
         queue = [Encode_media ''tok'' 4 100 ''https://host/api/v1/encode/100'' True 9,
                  Encode_media ''tok'' 3 101 ''https://host/api/v1/encode/101'' True 0]\<rparr>)"
    by (simp add: world_of_def queued_for_def sample_settings_def sample_media_def
        new_encoding_def mp4_240_def gif_preview_def)
  finally show ?thesis by (simp add: sample_settings_def)
qed

text \<open>
  The claim as stated skips every profile above the source height that is not in the
  list, and sets the priority by the list for every job. With a stored height of 0 the
  profile 1080 is encoded although 1080 exceeds 0 and is not in the list; and in the
  chunked branch a gif profile whose resolution 240 is in the list is queued at priority 0.
\<close>

theorem height_zero_and_chunked_gif_counterexample:
  "encode sample_settings [] (sample_media\<lparr>duration := 60, video_height := 0\<rparr>)
        (Some [mp4_1080]) True True (world_of [])
     = (None,
        \<lparr>encodings =
           [(new_encoding 7 mp4_1080)\<lparr>encoding_id := 100, add_date := 9000000, update_date := 9000000\<rparr>],
         medias = [sample_media], next_id = 101, now = 9000000, events = [],
         queue = [Encode_media ''tok'' 2 100 ''https://host/api/v1/encode/100'' True 0]\<rparr>)
   \<and> encode sample_settings [] sample_media (Some [gif_preview\<lparr>resolution := Some 240\<rparr>])
        True True (world_of [])
     = (None,
        \<lparr>encodings =
           [(new_encoding 7 (gif_preview\<lparr>resolution := Some 240\<rparr>))
              \<lparr>encoding_id := 100, add_date := 9000000, update_date := 9000000\<rparr>],
         medias = [sample_media], next_id = 101, now = 9000000, events = [],
         queue = [Encode_media ''tok'' 3 100 ''https://host/api/v1/encode/100'' True 0,
                  Chunkize_media ''tok'' [] True]\<rparr>)"
  by code_simp


end
